theory Spec2Isabelle
  imports Main "HOL-Library.AList"
begin

section \<open>Python values\<close>

text \<open>
  The iterators of \<^verbatim>\<open>roblox/utilities/iterators.py\<close> handle decoded JSON bodies and
  whatever a handler builds from them. Both are values of one dynamically typed universe:
  \<open>PNone\<close> is \<^verbatim>\<open>None\<close> (JSON \<^verbatim>\<open>null\<close>), a \<open>PDict\<close> is a dict with string keys in
  insertion order, and \<open>PObj\<close> is an object built by a handler (a class name and the data
  it was built from). JSON numbers are integers here.
\<close>

datatype pyval =
    PNone
  | PBool bool
  | PInt int
  | PStr string
  | PList "pyval list"
  | PDict "(string \<times> pyval) list"
  | PObj string pyval

text \<open>
  The exceptions that can leave the code under study. \<open>NoMoreItems\<close> is the library's
  exhaustion signal, \<open>StopAsyncIteration\<close> ends an \<^verbatim>\<open>async for\<close>; \<open>KeyError\<close>,
  \<open>IndexError\<close> and \<open>TypeError\<close> are raised by Python's subscripting, \<^verbatim>\<open>len\<close>,
  iteration and calls; \<open>TransportError\<close> is any failure of the HTTP collaborator and
  \<open>HandlerError\<close> any other exception of a handler.
\<close>

datatype error =
    NoMoreItems
  | StopAsyncIteration
  | KeyError
  | IndexError
  | TypeError
  | TransportError string
  | HandlerError string

text \<open>Python truthiness: \<^verbatim>\<open>not v\<close> holds exactly when \<open>truthy v\<close> is false.\<close>

fun truthy :: "pyval \<Rightarrow> bool" where
  "truthy PNone = False"
| "truthy (PBool b) = b"
| "truthy (PInt i) = (i \<noteq> 0)"
| "truthy (PStr s) = (s \<noteq> [])"
| "truthy (PList xs) = (xs \<noteq> [])"
| "truthy (PDict kvs) = (kvs \<noteq> [])"
| "truthy (PObj c d) = True"

text \<open>\<^verbatim>\<open>len(v)\<close>: defined on strings, lists and dicts, a \<^verbatim>\<open>TypeError\<close> otherwise.\<close>

fun py_len :: "pyval \<Rightarrow> error + nat" where
  "py_len (PStr s) = Inr (length s)"
| "py_len (PList xs) = Inr (length xs)"
| "py_len (PDict kvs) = Inr (length (remdups (map fst kvs)))"
| "py_len v = Inl TypeError"

text \<open>
  Iterating a value (a comprehension's \<^verbatim>\<open>for item in v\<close>, or \<^verbatim>\<open>items += v\<close>): a list
  gives its elements, a string its characters, a dict its keys.
\<close>

fun py_iter :: "pyval \<Rightarrow> error + pyval list" where
  "py_iter (PList xs) = Inr xs"
| "py_iter (PStr s) = Inr (map (\<lambda>c. PStr [c]) s)"
| "py_iter (PDict kvs) = Inr (map PStr (remdups (map fst kvs)))"
| "py_iter v = Inl TypeError"

text \<open>\<^verbatim>\<open>v[k]\<close> with a string key \<open>k\<close>: only a dict accepts it, and raises \<^verbatim>\<open>KeyError\<close>
  when the key is absent.\<close>

fun py_getitem :: "pyval \<Rightarrow> string \<Rightarrow> error + pyval" where
  "py_getitem (PDict kvs) k = (case map_of kvs k of None \<Rightarrow> Inl KeyError | Some v \<Rightarrow> Inr v)"
| "py_getitem v k = Inl TypeError"

text \<open>\<^verbatim>\<open>v[i]\<close> with a non-negative integer \<open>i\<close>: a list or a string raises
  \<^verbatim>\<open>IndexError\<close> out of range; a dict has string keys only, so an integer is a missing
  key.\<close>

fun py_index :: "pyval \<Rightarrow> nat \<Rightarrow> error + pyval" where
  "py_index (PList xs) i = (if i < length xs then Inr (xs ! i) else Inl IndexError)"
| "py_index (PStr s) i = (if i < length s then Inr (PStr [s ! i]) else Inl IndexError)"
| "py_index (PDict kvs) i = Inl KeyError"
| "py_index v i = Inl TypeError"

section \<open>The transport\<close>

text \<open>
  \<^verbatim>\<open>self._shared.requests.get(url=..., params=...)\<close> followed by \<^verbatim>\<open>.json()\<close>. The
  transport is an external collaborator: a server is any function from its own state and
  a request to a response and a new state. The world also records every request sent, so
  that "no fetch was performed" is a statement about the state.
\<close>

record request =
  req_url :: string
  req_params :: "(string \<times> pyval) list"

datatype response = Failed string | Body pyval

record 't world =
  tstate :: 't
  sent :: "request list"

type_synonym 't server = "'t \<Rightarrow> request \<Rightarrow> response \<times> 't"

definition transport_get :: "'t server \<Rightarrow> 't world \<Rightarrow> request \<Rightarrow> response \<times> 't world" where
  "transport_get srv w req =
     (case srv (tstate w) req of
        (resp, t') \<Rightarrow> (resp, w\<lparr>tstate := t', sent := sent w @ [req]\<rparr>))"

text \<open>A dict display \<^verbatim>\<open>{k1: v1, ..., **extra}\<close>: the keys of \<open>extra\<close> are stored in
  order, a key already present keeps its place and takes the new value.\<close>

definition dict_merge :: "(string \<times> pyval) list \<Rightarrow> (string \<times> pyval) list \<Rightarrow> (string \<times> pyval) list" where
  "dict_merge base extra = fold (\<lambda>(k, v). AList.update k v) extra base"

section \<open>SortOrder\<close>

datatype SortOrder = Ascending | Descending

fun SortOrder_value :: "SortOrder \<Rightarrow> string" where
  "SortOrder_value Ascending = ''Asc''"
| "SortOrder_value Descending = ''Desc''"

section \<open>PageIterator\<close>

text \<open>
  A handler is the caller's code: given its keyword arguments and one raw record it
  builds an object or raises. What it raises is one of Python's lookup and type errors
  or some exception of its own; the iterator's control signals \<open>NoMoreItems\<close> and
  \<open>StopAsyncIteration\<close> are not a handler's to raise.
\<close>

datatype handler_exception =
    HandlerKeyError
  | HandlerIndexError
  | HandlerTypeError
  | HandlerOther string

fun raised_by_handler :: "handler_exception \<Rightarrow> error" where
  "raised_by_handler HandlerKeyError = KeyError"
| "raised_by_handler HandlerIndexError = IndexError"
| "raised_by_handler HandlerTypeError = TypeError"
| "raised_by_handler (HandlerOther msg) = HandlerError msg"

type_synonym handler = "(string \<times> pyval) list \<Rightarrow> pyval \<Rightarrow> handler_exception + pyval"

record PageIterator =
  url :: string
  sort_order :: SortOrder
  limit :: int
  extra_parameters :: "(string \<times> pyval) list"
  handler :: "handler option"
  handler_kwargs :: "(string \<times> pyval) list"
  next_cursor :: pyval
  previous_cursor :: pyval
  iterator_position :: nat
  iterator_items :: "pyval list"
  next_started :: bool

text \<open>\<^verbatim>\<open>PageIterator.__init__\<close>; an omitted optional argument is \<open>None\<close>.\<close>

definition PageIterator_init ::
  "string \<Rightarrow> SortOrder \<Rightarrow> int \<Rightarrow> (string \<times> pyval) list option \<Rightarrow> handler option \<Rightarrow>
   (string \<times> pyval) list option \<Rightarrow> PageIterator" where
  "PageIterator_init u so lim extra h kwargs =
     \<lparr> url = u, sort_order = so, limit = lim,
       extra_parameters = (case extra of None \<Rightarrow> [] | Some e \<Rightarrow> e),
       handler = h,
       handler_kwargs = (case kwargs of None \<Rightarrow> [] | Some k \<Rightarrow> k),
       next_cursor = PStr [], previous_cursor = PStr [],
       iterator_position = 0, iterator_items = [], next_started = False \<rparr>"

text \<open>
  One call \<^verbatim>\<open>handler(shared=..., data=item_data, **kwargs)\<close>. A key \<^verbatim>\<open>shared\<close> or
  \<^verbatim>\<open>data\<close> among the keyword arguments collides with the two that are always passed,
  and the call raises \<^verbatim>\<open>TypeError\<close> before the handler runs; otherwise whatever the
  handler raises leaves the call.
\<close>

definition call_handler :: "handler \<Rightarrow> (string \<times> pyval) list \<Rightarrow> pyval \<Rightarrow> error + pyval" where
  "call_handler f kwargs item_data =
     (if ''shared'' \<in> set (map fst kwargs) \<or> ''data'' \<in> set (map fst kwargs) then Inl TypeError
      else (case f kwargs item_data of
              Inl r \<Rightarrow> Inl (raised_by_handler r)
            | Inr obj \<Rightarrow> Inr obj))"

text \<open>A list comprehension \<^verbatim>\<open>[g(x) for x in xs]\<close>: evaluated from the left, and the
  first raise ends it.\<close>

fun comprehension :: "('a \<Rightarrow> error + 'b) \<Rightarrow> 'a list \<Rightarrow> error + 'b list" where
  "comprehension g [] = Inr []"
| "comprehension g (x # xs) =
     (case g x of
        Inl e \<Rightarrow> Inl e
      | Inr y \<Rightarrow> (case comprehension g xs of Inl e \<Rightarrow> Inl e | Inr ys \<Rightarrow> Inr (y # ys)))"

text \<open>The comprehension \<^verbatim>\<open>[handler(shared=..., data=item_data, **kwargs) for item_data in data]\<close>,
  applied only when a handler was given.\<close>

definition apply_handler :: "handler option \<Rightarrow> (string \<times> pyval) list \<Rightarrow> pyval \<Rightarrow> error + pyval" where
  "apply_handler h kwargs data =
     (case h of
        None \<Rightarrow> Inr data
      | Some f \<Rightarrow> (case py_iter data of
                     Inl e \<Rightarrow> Inl e
                   | Inr xs \<Rightarrow> (case comprehension (call_handler f kwargs) xs of
                                  Inl e \<Rightarrow> Inl e
                                | Inr objs \<Rightarrow> Inr (PList objs))))"

definition PageIterator_request :: "PageIterator \<Rightarrow> request" where
  "PageIterator_request s =
     \<lparr> req_url = url s,
       req_params = dict_merge
         [(''cursor'', next_cursor s),
          (''limit'', PInt (limit s)),
          (''sortOrder'', PStr (SortOrder_value (sort_order s)))]
         (extra_parameters s) \<rparr>"

text \<open>\<^verbatim>\<open>PageIterator.next\<close>. Every raise is a branch, and the state returned with an
  error holds the assignments made before it.\<close>

definition PageIterator_next ::
  "'t server \<Rightarrow> PageIterator \<times> 't world \<Rightarrow> (error + pyval) \<times> (PageIterator \<times> 't world)" where
  "PageIterator_next srv st =
     (case st of (s, w) \<Rightarrow>
        if next_started s \<and> \<not> truthy (next_cursor s) then (Inl NoMoreItems, (s, w))
        else
          let s1 = (if \<not> next_started s then s\<lparr>next_started := True\<rparr> else s) in
          (case transport_get srv w (PageIterator_request s1) of
             (Failed msg, w1) \<Rightarrow> (Inl (TransportError msg), (s1, w1))
           | (Body page_data, w1) \<Rightarrow>
               (case py_getitem page_data ''nextPageCursor'' of
                  Inl e \<Rightarrow> (Inl e, (s1, w1))
                | Inr nc \<Rightarrow>
                    let s2 = s1\<lparr>next_cursor := nc\<rparr> in
                    (case py_getitem page_data ''previousPageCursor'' of
                       Inl e \<Rightarrow> (Inl e, (s2, w1))
                     | Inr pc \<Rightarrow>
                         let s3 = s2\<lparr>previous_cursor := pc\<rparr> in
                         (case py_getitem page_data ''data'' of
                            Inl e \<Rightarrow> (Inl e, (s3, w1))
                          | Inr data \<Rightarrow>
                              (apply_handler (handler s3) (handler_kwargs s3) data, (s3, w1)))))))"

text \<open>The state reached after \<open>k\<close> calls of an advance operation, each call made
  whatever the previous one returned.\<close>

fun after_calls :: "('st \<Rightarrow> 'r \<times> 'st) \<Rightarrow> nat \<Rightarrow> 'st \<Rightarrow> 'st" where
  "after_calls nxt 0 st = st"
| "after_calls nxt (Suc k) st = after_calls nxt k (snd (nxt st))"

section \<open>PageNumberIterator\<close>

record PageNumberIterator =
  pn_url :: string
  page_number :: int
  page_size :: int
  pn_extra_parameters :: "(string \<times> pyval) list"
  pn_handler :: "handler option"
  pn_handler_kwargs :: "(string \<times> pyval) list"
  pn_iterator_position :: nat
  pn_iterator_items :: "pyval list"

text \<open>\<^verbatim>\<open>PageNumberIterator.__init__\<close>.\<close>

definition PageNumberIterator_init ::
  "string \<Rightarrow> int \<Rightarrow> (string \<times> pyval) list option \<Rightarrow> handler option \<Rightarrow>
   (string \<times> pyval) list option \<Rightarrow> PageNumberIterator" where
  "PageNumberIterator_init u psize extra h kwargs =
     \<lparr> pn_url = u, page_number = 1, page_size = psize,
       pn_extra_parameters = (case extra of None \<Rightarrow> [] | Some e \<Rightarrow> e),
       pn_handler = h,
       pn_handler_kwargs = (case kwargs of None \<Rightarrow> [] | Some k \<Rightarrow> k),
       pn_iterator_position = 0, pn_iterator_items = [] \<rparr>"

definition PageNumberIterator_request :: "PageNumberIterator \<Rightarrow> request" where
  "PageNumberIterator_request s =
     \<lparr> req_url = pn_url s,
       req_params = dict_merge
         [(''pageNumber'', PInt (page_number s)),
          (''pageSize'', PInt (page_size s))]
         (pn_extra_parameters s) \<rparr>"

text \<open>\<^verbatim>\<open>PageNumberIterator.next\<close>.\<close>

definition PageNumberIterator_next ::
  "'t server \<Rightarrow> PageNumberIterator \<times> 't world \<Rightarrow>
   (error + pyval) \<times> (PageNumberIterator \<times> 't world)" where
  "PageNumberIterator_next srv st =
     (case st of (s, w) \<Rightarrow>
        (case transport_get srv w (PageNumberIterator_request s) of
           (Failed msg, w1) \<Rightarrow> (Inl (TransportError msg), (s, w1))
         | (Body data, w1) \<Rightarrow>
             (case py_len data of
                Inl e \<Rightarrow> (Inl e, (s, w1))
              | Inr n \<Rightarrow>
                  if n = 0 then (Inl NoMoreItems, (s, w1))
                  else
                    let s1 = s\<lparr>page_number := page_number s + 1\<rparr> in
                    (apply_handler (pn_handler s1) (pn_handler_kwargs s1) data, (s1, w1)))))"

section \<open>The base iterator and its two views\<close>

text \<open>
  \<^verbatim>\<open>Iterator.next\<close> is abstract: the views and \<^verbatim>\<open>flatten\<close> call whatever the subclass
  defines. Here the advance operation is a parameter \<open>nxt\<close>, a function from the state
  it works on to a result and the new state.
\<close>

type_synonym 'st advance = "'st \<Rightarrow> (error + pyval) \<times> 'st"

text \<open>
  \<^verbatim>\<open>Iterator.flatten\<close>. The loop \<^verbatim>\<open>while True\<close> ends only when \<^verbatim>\<open>next()\<close> raises, so the
  model takes fuel, the number of calls of \<^verbatim>\<open>next()\<close> it may make, and is \<open>None\<close> when
  that is not enough. \<^verbatim>\<open>items += new_items\<close> extends the list by iterating the page.
\<close>

fun flatten_loop ::
  "nat \<Rightarrow> 'st advance \<Rightarrow> pyval list \<Rightarrow> 'st \<Rightarrow> ((error + pyval list) \<times> 'st) option" where
  "flatten_loop 0 nxt items st = None"
| "flatten_loop (Suc n) nxt items st =
     (case nxt st of
        (Inl e, st') \<Rightarrow> if e = NoMoreItems then Some (Inr items, st') else Some (Inl e, st')
      | (Inr new_items, st') \<Rightarrow>
          (case py_iter new_items of
             Inl e \<Rightarrow> Some (Inl e, st')
           | Inr xs \<Rightarrow> flatten_loop n nxt (items @ xs) st'))"

definition Iterator_flatten ::
  "nat \<Rightarrow> 'st advance \<Rightarrow> 'st \<Rightarrow> ((error + pyval list) \<times> 'st) option" where
  "Iterator_flatten n nxt st = flatten_loop n nxt [] st"

text \<open>\<^verbatim>\<open>IteratorPages.__anext__\<close>: the page view has no state of its own.\<close>

definition IteratorPages_anext :: "'st advance \<Rightarrow> 'st advance" where
  "IteratorPages_anext nxt st =
     (case nxt st of
        (Inl e, st') \<Rightarrow> if e = NoMoreItems then (Inl StopAsyncIteration, st') else (Inl e, st')
      | (Inr page, st') \<Rightarrow> (Inr page, st'))"

text \<open>
  \<^verbatim>\<open>IteratorItems\<close>: the view's own fields, with the iterator it refers to held in
  \<open>v_iterator\<close>, so that what a method of the view does to the iterator is visible.
\<close>

record 'it IteratorItems =
  v_iterator :: 'it
  v_position :: nat
  v_items :: pyval

definition IteratorItems_init :: "'it \<Rightarrow> 'it IteratorItems" where
  "IteratorItems_init it = \<lparr> v_iterator = it, v_position = 0, v_items = PList [] \<rparr>"

text \<open>\<^verbatim>\<open>IteratorItems.__aiter__\<close>.\<close>

definition IteratorItems_aiter :: "'it IteratorItems \<Rightarrow> 'it IteratorItems" where
  "IteratorItems_aiter v = v\<lparr>v_position := 0, v_items := PList []\<rparr>"

text \<open>The second half of \<^verbatim>\<open>IteratorItems.__anext__\<close>: the guarded read and the
  increment.\<close>

definition read_item ::
  "'it IteratorItems \<times> 'w \<Rightarrow> (error + pyval) \<times> ('it IteratorItems \<times> 'w)" where
  "read_item st =
     (case st of (v, w) \<Rightarrow>
        (case py_index (v_items v) (v_position v) of
           Inl e \<Rightarrow> if e = IndexError then (Inl StopAsyncIteration, (v, w)) else (Inl e, (v, w))
         | Inr item \<Rightarrow> (Inr item, (v\<lparr>v_position := v_position v + 1\<rparr>, w))))"

text \<open>\<^verbatim>\<open>IteratorItems.__anext__\<close>.\<close>

definition IteratorItems_anext ::
  "('it \<times> 'w) advance \<Rightarrow> ('it IteratorItems \<times> 'w) advance" where
  "IteratorItems_anext nxt st =
     (case st of (v, w) \<Rightarrow>
        (case py_len (v_items v) of
           Inl e \<Rightarrow> (Inl e, (v, w))
         | Inr n \<Rightarrow>
             if v_position v = n then
               let v1 = v\<lparr>v_position := 0\<rparr> in
               (case nxt (v_iterator v1, w) of
                  (Inl e, (it', w')) \<Rightarrow>
                    if e = NoMoreItems
                    then (Inl StopAsyncIteration,
                          (v1\<lparr>v_iterator := it', v_position := 0, v_items := PList []\<rparr>, w'))
                    else (Inl e, (v1\<lparr>v_iterator := it'\<rparr>, w'))
                | (Inr page, (it', w')) \<Rightarrow>
                    read_item (v1\<lparr>v_iterator := it', v_items := page\<rparr>, w'))
             else read_item (v, w)))"

text \<open>
  A consumer \<^verbatim>\<open>[x async for x in view]\<close>: it calls \<^verbatim>\<open>__anext__\<close> until that raises, and
  \<^verbatim>\<open>StopAsyncIteration\<close> ends the loop normally. Fuel bounds the number of steps.
\<close>

fun async_for ::
  "nat \<Rightarrow> 'v advance \<Rightarrow> pyval list \<Rightarrow> 'v \<Rightarrow> ((error + pyval list) \<times> 'v) option" where
  "async_for 0 anext acc v = None"
| "async_for (Suc n) anext acc v =
     (case anext v of
        (Inl e, v') \<Rightarrow> if e = StopAsyncIteration then Some (Inr acc, v') else Some (Inl e, v')
      | (Inr x, v') \<Rightarrow> async_for n anext (acc @ [x]) v')"

text \<open>The in-order concatenation of pages, each page iterated as \<^verbatim>\<open>+=\<close> does.\<close>

fun concat_pages :: "pyval list \<Rightarrow> error + pyval list" where
  "concat_pages [] = Inr []"
| "concat_pages (p # ps) =
     (case py_iter p of
        Inl e \<Rightarrow> Inl e
      | Inr xs \<Rightarrow> (case concat_pages ps of Inl e \<Rightarrow> Inl e | Inr ys \<Rightarrow> Inr (xs @ ys)))"

section \<open>Servers\<close>

text \<open>A server that replays a fixed sequence of responses, whatever is asked, and fails
  once the sequence is used up.\<close>

definition scripted :: "(response list) server" where
  "scripted rs req =
     (case rs of [] \<Rightarrow> (Failed ''no response left'', []) | r # rs' \<Rightarrow> (r, rs'))"

text \<open>A server whose response depends on the request alone.\<close>

definition stateless :: "(request \<Rightarrow> response) \<Rightarrow> 't server" where
  "stateless f t req = (f req, t)"

definition new_world :: "'t \<Rightarrow> 't world" where
  "new_world t = \<lparr> tstate = t, sent = [] \<rparr>"

text \<open>A cursor iterator as \<^verbatim>\<open>PageIterator(shared, url)\<close> builds it, and the same after a
  first page that had no forward cursor.\<close>

definition fresh_cursor_iterator :: PageIterator where
  "fresh_cursor_iterator = PageIterator_init ''https://groups.example/v1/members'' Ascending 10 None None None"

definition spent_cursor_iterator :: PageIterator where
  "spent_cursor_iterator = fresh_cursor_iterator\<lparr>next_started := True\<rparr>"

text \<open>Two pages of a cursor endpoint; the second has no forward cursor.\<close>

definition first_page :: pyval where
  "first_page = PDict [(''previousPageCursor'', PNone), (''nextPageCursor'', PStr ''abc''),
                       (''data'', PList [PInt 1, PInt 2, PInt 3])]"

definition last_page :: pyval where
  "last_page = PDict [(''previousPageCursor'', PStr ''xyz''), (''nextPageCursor'', PNone),
                      (''data'', PList [PInt 4, PInt 5])]"

text \<open>A page-number iterator as \<^verbatim>\<open>PageNumberIterator(shared, url)\<close> builds it, and a
  page-number endpoint that has one page of two records.\<close>

definition fresh_number_iterator :: PageNumberIterator where
  "fresh_number_iterator = PageNumberIterator_init ''https://chat.example/v2/conversations'' 10 None None None"

definition short_listing :: "request \<Rightarrow> response" where
  "short_listing req =
     (if map_of (req_params req) ''pageNumber'' = Some (PInt 1)
      then Body (PList [PInt 7, PInt 8]) else Body (PList []))"

text \<open>A last page of a cursor endpoint with no records, a body without the
  \<^verbatim>\<open>nextPageCursor\<close> key, and an item view stopped after the first item of
  \<open>first_page\<close>.\<close>

definition empty_last_page :: pyval where
  "empty_last_page = PDict [(''previousPageCursor'', PStr ''abc''), (''nextPageCursor'', PStr ''''),
                            (''data'', PList [])]"

definition cursorless_page :: pyval where
  "cursorless_page = PDict [(''previousPageCursor'', PNone), (''data'', PList [PInt 1])]"

text \<open>A cursor iterator whose handler raises \<^verbatim>\<open>IndexError\<close> on every record, and a
  page-number iterator whose handler raises an exception of its own.\<close>

definition brittle_cursor_iterator :: PageIterator where
  "brittle_cursor_iterator =
     PageIterator_init ''https://groups.example/v1/members'' Ascending 10 None
       (Some (\<lambda>kwargs item_data. Inl HandlerIndexError)) None"

definition brittle_number_iterator :: PageNumberIterator where
  "brittle_number_iterator =
     PageNumberIterator_init ''https://chat.example/v2/conversations'' 10 None
       (Some (\<lambda>kwargs item_data. Inl (HandlerOther ''bad record''))) None"

definition mid_traversal :: "PageIterator IteratorItems \<times> (response list) world" where
  "mid_traversal =
     snd (IteratorItems_anext (PageIterator_next scripted)
            (IteratorItems_init fresh_cursor_iterator, new_world [Body first_page, Body last_page]))"

section \<open>Basic facts\<close>

lemma PageIterator_next_guard:
  assumes "next_started s" and "\<not> truthy (next_cursor s)"
  shows "PageIterator_next srv (s, w) = (Inl NoMoreItems, (s, w))"
  using assms by (simp add: PageIterator_next_def)

lemma after_calls_fixed:
  assumes "snd (nxt st) = st"
  shows "after_calls nxt k st = st"
  using assms by (induction k) simp_all

lemma dict_merge_lookup_fresh:
  "k \<notin> fst ` set extra \<Longrightarrow> map_of (dict_merge base extra) k = map_of base k"
  unfolding dict_merge_def
  by (induction extra arbitrary: base) (auto simp: update_conv')

lemma started_eq: "(if \<not> next_started s then s\<lparr>next_started := True\<rparr> else s) = s\<lparr>next_started := True\<rparr>"
  by simp

lemma raised_by_handler_no_signal:
  "raised_by_handler r \<noteq> NoMoreItems" "raised_by_handler r \<noteq> StopAsyncIteration"
  by (cases r; simp)+

lemma call_handler_no_signal:
  "call_handler f kw x \<noteq> Inl NoMoreItems" "call_handler f kw x \<noteq> Inl StopAsyncIteration"
  by (auto simp: call_handler_def raised_by_handler_no_signal split: sum.splits)

lemma comprehension_error:
  "comprehension g xs = Inl e \<Longrightarrow> \<exists>x \<in> set xs. g x = Inl e"
  by (induction xs) (auto split: sum.splits)

lemma py_iter_error: "py_iter d = Inl e \<Longrightarrow> e = TypeError"
  by (cases d) auto

lemma apply_handler_not_exhaustion: "apply_handler h kw d \<noteq> Inl NoMoreItems"
proof
  assume "apply_handler h kw d = Inl NoMoreItems"
  then show False
    by (auto simp: apply_handler_def call_handler_no_signal
          split: option.splits sum.splits dest: py_iter_error comprehension_error)
qed

lemma apply_handler_no_stop: "apply_handler h kw d \<noteq> Inl StopAsyncIteration"
proof
  assume "apply_handler h kw d = Inl StopAsyncIteration"
  then show False
    by (auto simp: apply_handler_def call_handler_no_signal
          split: option.splits sum.splits dest: py_iter_error comprehension_error)
qed

lemma py_getitem_error: "py_getitem v k = Inl e \<Longrightarrow> e = KeyError \<or> e = TypeError"
  by (cases v) (auto split: option.splits)

lemma PageIterator_next_exhaustion_iff:
  "fst (PageIterator_next srv (s, w)) = Inl NoMoreItems \<longleftrightarrow> next_started s \<and> \<not> truthy (next_cursor s)"
  by (auto simp: PageIterator_next_def Let_def apply_handler_not_exhaustion split: prod.splits response.splits sum.splits dest: py_getitem_error)

lemma after_calls_invariant:
  assumes "\<And>st. P st \<Longrightarrow> P (snd (nxt st))" and "P st"
  shows "P (after_calls nxt k st)"
  using assms(2) by (induction k arbitrary: st) (simp_all add: assms(1))

lemma PageIterator_next_exhausted_state:
  assumes "fst (PageIterator_next srv st) = Inl NoMoreItems"
  shows "snd (PageIterator_next srv st) = st"
proof (cases st)
  case (Pair s w)
  with assms have "next_started s \<and> \<not> truthy (next_cursor s)"
    by (simp add: PageIterator_next_exhaustion_iff)
  with Pair show ?thesis by (simp add: PageIterator_next_guard)
qed

lemma py_len_error: "py_len v = Inl e \<Longrightarrow> e = TypeError"
  by (cases v) auto

lemma PageNumberIterator_next_exhaustion_iff:
  "fst (PageNumberIterator_next (stateless f) (s, w)) = Inl NoMoreItems \<longleftrightarrow>
     (\<exists>d. f (PageNumberIterator_request s) = Body d \<and> py_len d = Inr 0)"
  by (auto simp: PageNumberIterator_next_def transport_get_def stateless_def Let_def
        apply_handler_not_exhaustion split: response.splits sum.splits dest: py_len_error)

lemma PageNumberIterator_next_exhausted_state:
  assumes "fst (PageNumberIterator_next srv (s, w)) = Inl NoMoreItems"
  shows "fst (snd (PageNumberIterator_next srv (s, w))) = s"
  using assms
  by (auto simp: PageNumberIterator_next_def transport_get_def Let_def
        apply_handler_not_exhaustion split: prod.splits response.splits sum.splits if_splits
        dest: py_len_error)

lemma PageIterator_next_fetch:
  assumes "\<not> (next_started s \<and> \<not> truthy (next_cursor s))"
    and "srv (tstate w) (PageIterator_request (s\<lparr>next_started := True\<rparr>)) = (Body (PDict kvs), t')"
  shows "PageIterator_next srv (s, w) =
     (let s1 = s\<lparr>next_started := True\<rparr>;
          w1 = w\<lparr>tstate := t', sent := sent w @ [PageIterator_request s1]\<rparr>
      in case map_of kvs ''nextPageCursor'' of
           None \<Rightarrow> (Inl KeyError, (s1, w1))
         | Some nc \<Rightarrow>
             (case map_of kvs ''previousPageCursor'' of
                None \<Rightarrow> (Inl KeyError, (s1\<lparr>next_cursor := nc\<rparr>, w1))
              | Some pc \<Rightarrow>
                  (case map_of kvs ''data'' of
                     None \<Rightarrow> (Inl KeyError, (s1\<lparr>next_cursor := nc, previous_cursor := pc\<rparr>, w1))
                   | Some d \<Rightarrow> (apply_handler (handler s) (handler_kwargs s) d,
                                (s1\<lparr>next_cursor := nc, previous_cursor := pc\<rparr>, w1)))))"
  using assms
  by (auto simp: PageIterator_next_def started_eq transport_get_def Let_def
        split: option.splits)

lemma PageIterator_next_sent:
  assumes "\<not> (next_started s \<and> \<not> truthy (next_cursor s))"
  shows "sent (snd (snd (PageIterator_next srv (s, w))))
           = sent w @ [PageIterator_request (s\<lparr>next_started := True\<rparr>)]"
  using assms
  by (auto simp: PageIterator_next_def started_eq transport_get_def Let_def
        split: prod.splits response.splits sum.splits)

lemma PageIterator_next_started:
  assumes "\<not> (next_started s \<and> \<not> truthy (next_cursor s))"
  shows "next_started (fst (snd (PageIterator_next srv (s, w))))"
  using assms
  by (auto simp: PageIterator_next_def started_eq transport_get_def Let_def
        split: prod.splits response.splits sum.splits)

lemma PageNumberIterator_next_sent:
  "sent (snd (snd (PageNumberIterator_next srv (s, w)))) = sent w @ [PageNumberIterator_request s]"
  by (simp add: PageNumberIterator_next_def transport_get_def Let_def
        split: prod.splits response.splits sum.splits)

lemma PageNumberIterator_next_page:
  assumes "srv (tstate w) (PageNumberIterator_request s) = (Body d, t')"
    and "py_len d = Inr m" and "0 < m"
  shows "PageNumberIterator_next srv (s, w) =
           (apply_handler (pn_handler s) (pn_handler_kwargs s) d,
            (s\<lparr>page_number := page_number s + 1\<rparr>,
             w\<lparr>tstate := t', sent := sent w @ [PageNumberIterator_request s]\<rparr>))"
  using assms by (simp add: PageNumberIterator_next_def transport_get_def Let_def)

lemma PageNumberIterator_next_empty:
  assumes "srv (tstate w) (PageNumberIterator_request s) = (Body d, t')"
    and "py_len d = Inr 0"
  shows "PageNumberIterator_next srv (s, w) =
           (Inl NoMoreItems, (s, w\<lparr>tstate := t', sent := sent w @ [PageNumberIterator_request s]\<rparr>))"
  using assms by (simp add: PageNumberIterator_next_def transport_get_def Let_def)

lemma PageNumberIterator_next_success:
  assumes "fst (PageNumberIterator_next srv (s, w)) = Inr p"
  shows "fst (snd (PageNumberIterator_next srv (s, w))) = s\<lparr>page_number := page_number s + 1\<rparr>"
  using assms
  by (auto simp: PageNumberIterator_next_def transport_get_def Let_def
        split: prod.splits response.splits sum.splits if_splits)

lemma PageNumberIterator_next_changed:
  assumes "page_number (fst (snd (PageNumberIterator_next srv (s, w)))) \<noteq> page_number s"
  shows "\<exists>d t' m. srv (tstate w) (PageNumberIterator_request s) = (Body d, t') \<and>
                  py_len d = Inr m \<and> 0 < m"
  using assms
  by (auto simp: PageNumberIterator_next_def transport_get_def Let_def
        split: prod.splits response.splits sum.splits if_splits)

lemma page_number_after_pages:
  assumes "\<forall>i<n. \<exists>p. fst (PageNumberIterator_next srv (after_calls (PageNumberIterator_next srv) i (s, w))) = Inr p"
  shows "fst (after_calls (PageNumberIterator_next srv) n (s, w)) = s\<lparr>page_number := page_number s + int n\<rparr>"
  using assms
proof (induction n arbitrary: s w)
  case 0
  show ?case by simp
next
  case (Suc n)
  let ?nxt = "PageNumberIterator_next srv"
  obtain s1 w1 where st1: "snd (?nxt (s, w)) = (s1, w1)"
    by (cases "snd (?nxt (s, w))")
  from Suc.prems have "\<exists>p. fst (?nxt (after_calls ?nxt 0 (s, w))) = Inr p"
    by blast
  then obtain p where "fst (?nxt (s, w)) = Inr p" by auto
  then have s1: "s1 = s\<lparr>page_number := page_number s + 1\<rparr>"
    using PageNumberIterator_next_success [of srv s w p] st1 by simp
  have "\<forall>i<n. \<exists>p. fst (?nxt (after_calls ?nxt i (s1, w1))) = Inr p"
  proof (intro allI impI)
    fix i assume "i < n"
    then have "Suc i < Suc n" by simp
    with Suc.prems have "\<exists>p. fst (?nxt (after_calls ?nxt (Suc i) (s, w))) = Inr p"
      by blast
    with st1 show "\<exists>p. fst (?nxt (after_calls ?nxt i (s1, w1))) = Inr p" by simp
  qed
  then have "fst (after_calls ?nxt n (s1, w1)) = s1\<lparr>page_number := page_number s1 + int n\<rparr>"
    by (rule Suc.IH)
  with st1 s1 show ?case by simp
qed

section \<open>Exhaustion\<close>

text \<open>
  Claim C1. When \<open>next_started\<close> is true and \<open>next_cursor\<close> is empty (falsy), \<open>next()\<close>
  raises \<open>NoMoreItems\<close>, sends no request and leaves the iterator and the world as they
  were; the same holds at every later call.
\<close>

theorem PageIterator_exhausted_forever:
  assumes "next_started s" and "\<not> truthy (next_cursor s)"
  shows "PageIterator_next srv (after_calls (PageIterator_next srv) k (s, w))
           = (Inl NoMoreItems, (s, w))"
proof -
  have step: "PageIterator_next srv (s, w) = (Inl NoMoreItems, (s, w))"
    using assms by (rule PageIterator_next_guard)
  then have "after_calls (PageIterator_next srv) k (s, w) = (s, w)"
    by (intro after_calls_fixed) simp
  with step show ?thesis by simp
qed

theorem PageIterator_exhausted_forever_witness:
  "next_started spent_cursor_iterator \<and> \<not> truthy (next_cursor spent_cursor_iterator) \<and>
   PageIterator_next scripted
     (after_calls (PageIterator_next scripted) 3
        (spent_cursor_iterator, new_world [Body (PList [PInt 1])]))
     = (Inl NoMoreItems, (spent_cursor_iterator, new_world [Body (PList [PInt 1])]))"
proof -
  have a: "next_started spent_cursor_iterator"
    by (simp add: spent_cursor_iterator_def)
  have b: "\<not> truthy (next_cursor spent_cursor_iterator)"
    by (simp add: spent_cursor_iterator_def fresh_cursor_iterator_def PageIterator_init_def)
  from a b PageIterator_exhausted_forever [OF a b] show ?thesis by simp
qed

text \<open>
  Claim C2. Once \<open>next()\<close> has raised \<open>NoMoreItems\<close>, every later call raises it again and
  returns no page. For the cursor iterator this holds against any server; for the
  page-number iterator it holds when the server answers a request by a function of the
  request alone.
\<close>

theorem exhaustion_stable:
  "(fst (PageIterator_next srv st) = Inl NoMoreItems \<longrightarrow>
      fst (PageIterator_next srv (after_calls (PageIterator_next srv) k st)) = Inl NoMoreItems) \<and>
   (fst (PageNumberIterator_next (stateless f) (st' :: PageNumberIterator \<times> 'c world)) = Inl NoMoreItems \<longrightarrow>
      fst (PageNumberIterator_next (stateless f)
             (after_calls (PageNumberIterator_next (stateless f)) k st')) = Inl NoMoreItems)"
proof (intro conjI impI)
  assume "fst (PageIterator_next srv st) = Inl NoMoreItems"
  then show "fst (PageIterator_next srv (after_calls (PageIterator_next srv) k st)) = Inl NoMoreItems"
    by (rule after_calls_invariant [rotated]) (simp add: PageIterator_next_exhausted_state)
next
  let ?nxt = "PageNumberIterator_next (stateless f) :: (PageNumberIterator \<times> 'c world) advance"
  assume ex: "fst (?nxt st') = Inl NoMoreItems"
  have step: "fst (?nxt (snd (?nxt x))) = Inl NoMoreItems" if "fst (?nxt x) = Inl NoMoreItems" for x
  proof (cases x)
    case (Pair s w)
    with that have same: "fst (snd (?nxt (s, w))) = s"
      by (simp add: PageNumberIterator_next_exhausted_state)
    from that Pair have "\<exists>d. f (PageNumberIterator_request s) = Body d \<and> py_len d = Inr 0"
      by (simp add: PageNumberIterator_next_exhaustion_iff)
    then have "fst (?nxt (s, snd (snd (?nxt (s, w))))) = Inl NoMoreItems"
      by (simp add: PageNumberIterator_next_exhaustion_iff)
    with same Pair show ?thesis
      by (metis prod.collapse)
  qed
  from ex show "fst (?nxt (after_calls ?nxt k st')) = Inl NoMoreItems"
    by (rule after_calls_invariant [rotated]) (rule step)
qed

theorem exhaustion_stable_witness:
  "fst (PageIterator_next scripted (spent_cursor_iterator, new_world [Body first_page])) = Inl NoMoreItems \<and>
   fst (PageIterator_next scripted
          (after_calls (PageIterator_next scripted) 2
             (spent_cursor_iterator, new_world [Body first_page]))) = Inl NoMoreItems \<and>
   fst (PageNumberIterator_next (stateless short_listing)
          (fresh_number_iterator\<lparr>page_number := 2\<rparr>, new_world ())) = Inl NoMoreItems \<and>
   fst (PageNumberIterator_next (stateless short_listing)
          (after_calls (PageNumberIterator_next (stateless short_listing)) 2
             (fresh_number_iterator\<lparr>page_number := 2\<rparr>, new_world ()))) = Inl NoMoreItems"
proof -
  have a: "fst (PageIterator_next scripted (spent_cursor_iterator, new_world [Body first_page]))
             = Inl NoMoreItems"
    by (simp add: PageIterator_next_def spent_cursor_iterator_def fresh_cursor_iterator_def
          PageIterator_init_def)
  have b: "fst (PageNumberIterator_next (stateless short_listing)
                  (fresh_number_iterator\<lparr>page_number := 2\<rparr>, new_world ())) = Inl NoMoreItems"
    by (simp add: PageNumberIterator_next_def transport_get_def stateless_def short_listing_def
          PageNumberIterator_request_def dict_merge_def fresh_number_iterator_def
          PageNumberIterator_init_def new_world_def)
  from a b
    exhaustion_stable [where srv = scripted and k = 2 and f = short_listing
      and st = "(spent_cursor_iterator, new_world [Body first_page])"
      and st' = "(fresh_number_iterator\<lparr>page_number := 2\<rparr>, new_world ())"]
  show ?thesis by simp
qed

section \<open>Flattening and the page view\<close>

lemma async_for_acc:
  "async_for n a acc v =
     (case async_for n a [] v of
        None \<Rightarrow> None
      | Some (Inl e, v') \<Rightarrow> Some (Inl e, v')
      | Some (Inr r, v') \<Rightarrow> Some (Inr (acc @ r), v'))"
proof (induction n arbitrary: acc v)
  case 0
  show ?case by simp
next
  case (Suc n)
  obtain r v' where step: "a v = (r, v')" by (cases "a v")
  show ?case
  proof (cases r)
    case (Inl e)
    with step show ?thesis by simp
  next
    case (Inr x)
    have long: "async_for n a (acc @ [x]) v' =
            (case async_for n a [] v' of
               None \<Rightarrow> None
             | Some (Inl e, v'') \<Rightarrow> Some (Inl e, v'')
             | Some (Inr r, v'') \<Rightarrow> Some (Inr ((acc @ [x]) @ r), v''))"
      by (rule Suc.IH)
    have short: "async_for n a [x] v' =
            (case async_for n a [] v' of
               None \<Rightarrow> None
             | Some (Inl e, v'') \<Rightarrow> Some (Inl e, v'')
             | Some (Inr r, v'') \<Rightarrow> Some (Inr ([x] @ r), v''))"
      by (rule Suc.IH)
    show ?thesis
      using step Inr by (simp add: long short split: option.splits sum.splits prod.splits)
  qed
qed

lemma flatten_loop_acc:
  "flatten_loop n nxt items st =
     (case flatten_loop n nxt [] st of
        None \<Rightarrow> None
      | Some (Inl e, st') \<Rightarrow> Some (Inl e, st')
      | Some (Inr r, st') \<Rightarrow> Some (Inr (items @ r), st'))"
proof (induction n arbitrary: items st)
  case 0
  show ?case by simp
next
  case (Suc n)
  obtain r st' where step: "nxt st = (r, st')" by (cases "nxt st")
  show ?case
  proof (cases r)
    case (Inl e)
    with step show ?thesis by simp
  next
    case (Inr page)
    show ?thesis
    proof (cases "py_iter page")
      case (Inl e)
      with step Inr show ?thesis by simp
    next
      case Inr2: (Inr xs)
      have long: "flatten_loop n nxt (items @ xs) st' =
              (case flatten_loop n nxt [] st' of
                 None \<Rightarrow> None
               | Some (Inl e, st'') \<Rightarrow> Some (Inl e, st'')
               | Some (Inr r, st'') \<Rightarrow> Some (Inr ((items @ xs) @ r), st''))"
        by (rule Suc.IH)
      have short: "flatten_loop n nxt xs st' =
              (case flatten_loop n nxt [] st' of
                 None \<Rightarrow> None
               | Some (Inl e, st'') \<Rightarrow> Some (Inl e, st'')
               | Some (Inr r, st'') \<Rightarrow> Some (Inr (xs @ r), st''))"
        by (rule Suc.IH)
      show ?thesis
        using step Inr Inr2 by (simp add: long short split: option.splits sum.splits prod.splits)
    qed
  qed
qed

lemma flatten_is_concat_of_pages:
  assumes no_stop: "\<And>x. fst (nxt x) \<noteq> Inl StopAsyncIteration"
  shows "flatten_loop n nxt [] st = Some (Inr res, st') \<longleftrightarrow>
           (\<exists>pages. async_for n (IteratorPages_anext nxt) [] st = Some (Inr pages, st') \<and>
                    concat_pages pages = Inr res)"
proof (induction n arbitrary: st res)
  case 0
  show ?case by simp
next
  case (Suc n)
  obtain r st1 where step: "nxt st = (r, st1)" by (cases "nxt st")
  show ?case
  proof (cases r)
    case (Inl e)
    from no_stop [of st] step Inl have "e \<noteq> StopAsyncIteration" by simp
    with step Inl show ?thesis
      by (auto simp: IteratorPages_anext_def)
  next
    case (Inr page)
    have pv: "IteratorPages_anext nxt st = (Inr page, st1)"
      using step Inr by (simp add: IteratorPages_anext_def)
    show ?thesis
    proof (cases "py_iter page")
      case (Inl e)
      have "flatten_loop (Suc n) nxt [] st = Some (Inl e, st1)"
        using step Inr Inl by simp
      moreover have "\<not> (\<exists>pages. async_for (Suc n) (IteratorPages_anext nxt) [] st = Some (Inr pages, st')
                          \<and> concat_pages pages = Inr res)"
        using pv Inl
        by (subst async_for.simps, simp, subst async_for_acc)
           (auto split: option.splits sum.splits prod.splits)
      ultimately show ?thesis by simp
    next
      case Inr2: (Inr xs)
      have l: "flatten_loop (Suc n) nxt [] st =
                 (case flatten_loop n nxt [] st1 of
                    None \<Rightarrow> None
                  | Some (Inl e, st'') \<Rightarrow> Some (Inl e, st'')
                  | Some (Inr r, st'') \<Rightarrow> Some (Inr (xs @ r), st''))"
        using step Inr Inr2 by (simp add: flatten_loop_acc [of n nxt xs])
      have r: "async_for (Suc n) (IteratorPages_anext nxt) [] st =
                 (case async_for n (IteratorPages_anext nxt) [] st1 of
                    None \<Rightarrow> None
                  | Some (Inl e, st'') \<Rightarrow> Some (Inl e, st'')
                  | Some (Inr ps, st'') \<Rightarrow> Some (Inr (page # ps), st''))"
        using pv by (simp add: async_for_acc [of n _ "[page]"] split: option.splits sum.splits prod.splits)
      show ?thesis
      proof
        assume "flatten_loop (Suc n) nxt [] st = Some (Inr res, st')"
        then obtain r0 where f: "flatten_loop n nxt [] st1 = Some (Inr r0, st')" and res: "res = xs @ r0"
          unfolding l by (auto split: option.splits sum.splits prod.splits)
        from f Suc.IH obtain ps
          where "async_for n (IteratorPages_anext nxt) [] st1 = Some (Inr ps, st')"
            and "concat_pages ps = Inr r0"
          by blast
        with Inr2 res
        have "async_for (Suc n) (IteratorPages_anext nxt) [] st = Some (Inr (page # ps), st') \<and>
              concat_pages (page # ps) = Inr res"
          unfolding r by simp
        then show "\<exists>pages. async_for (Suc n) (IteratorPages_anext nxt) [] st = Some (Inr pages, st') \<and>
                     concat_pages pages = Inr res"
          by blast
      next
        assume "\<exists>pages. async_for (Suc n) (IteratorPages_anext nxt) [] st = Some (Inr pages, st') \<and>
                  concat_pages pages = Inr res"
        then obtain pages
          where a: "async_for (Suc n) (IteratorPages_anext nxt) [] st = Some (Inr pages, st')"
            and c: "concat_pages pages = Inr res"
          by blast
        from a obtain ps
          where ps: "async_for n (IteratorPages_anext nxt) [] st1 = Some (Inr ps, st')"
            and pages: "pages = page # ps"
          unfolding r by (auto split: option.splits sum.splits prod.splits)
        from c pages Inr2 obtain r0 where r0: "concat_pages ps = Inr r0" and res: "res = xs @ r0"
          by (auto split: sum.splits)
        from ps r0 Suc.IH have "flatten_loop n nxt [] st1 = Some (Inr r0, st')"
          by blast
        with res show "flatten_loop (Suc n) nxt [] st = Some (Inr res, st')"
          unfolding l by simp
      qed
    qed
  qed
qed

lemma PageIterator_next_no_stop: "fst (PageIterator_next srv x) \<noteq> Inl StopAsyncIteration"
  by (cases x) (auto simp: PageIterator_next_def Let_def apply_handler_no_stop
        split: prod.splits response.splits sum.splits dest: py_getitem_error)

lemma PageNumberIterator_next_no_stop: "fst (PageNumberIterator_next srv x) \<noteq> Inl StopAsyncIteration"
  by (cases x) (auto simp: PageNumberIterator_next_def Let_def apply_handler_no_stop
        split: prod.splits response.splits sum.splits dest: py_len_error)

text \<open>
  Claim C3. From the same iterator and world, \<open>flatten()\<close> returns a list exactly when
  a traversal of the page view ends normally with pages whose in-order concatenation is
  that list, and both leave the same final state. It holds for the cursor iterator and
  for the page-number iterator, against any server.
\<close>

theorem flatten_equals_concatenated_pages:
  "(Iterator_flatten n (PageIterator_next srv) st = Some (Inr res, st') \<longleftrightarrow>
      (\<exists>pages. async_for n (IteratorPages_anext (PageIterator_next srv)) [] st = Some (Inr pages, st') \<and>
               concat_pages pages = Inr res)) \<and>
   (Iterator_flatten n (PageNumberIterator_next srv') su = Some (Inr res', su') \<longleftrightarrow>
      (\<exists>pages. async_for n (IteratorPages_anext (PageNumberIterator_next srv')) [] su = Some (Inr pages, su') \<and>
               concat_pages pages = Inr res'))"
  unfolding Iterator_flatten_def
  by (intro conjI flatten_is_concat_of_pages PageIterator_next_no_stop PageNumberIterator_next_no_stop)

theorem flatten_equals_concatenated_pages_witness:
  "Iterator_flatten 3 (PageIterator_next scripted)
       (fresh_cursor_iterator, new_world [Body first_page, Body last_page])
     = Some (Inr [PInt 1, PInt 2, PInt 3, PInt 4, PInt 5],
             after_calls (PageIterator_next scripted) 3
               (fresh_cursor_iterator, new_world [Body first_page, Body last_page])) \<and>
   (\<exists>pages. async_for 3 (IteratorPages_anext (PageIterator_next scripted)) []
               (fresh_cursor_iterator, new_world [Body first_page, Body last_page])
             = Some (Inr pages,
                     after_calls (PageIterator_next scripted) 3
                       (fresh_cursor_iterator, new_world [Body first_page, Body last_page])) \<and>
            concat_pages pages = Inr [PInt 1, PInt 2, PInt 3, PInt 4, PInt 5]) \<and>
   Iterator_flatten 2 (PageNumberIterator_next (stateless short_listing))
       (fresh_number_iterator, new_world ())
     = Some (Inr [PInt 7, PInt 8],
             after_calls (PageNumberIterator_next (stateless short_listing)) 2
               (fresh_number_iterator, new_world ())) \<and>
   (\<exists>pages. async_for 2 (IteratorPages_anext (PageNumberIterator_next (stateless short_listing))) []
               (fresh_number_iterator, new_world ())
             = Some (Inr pages,
                     after_calls (PageNumberIterator_next (stateless short_listing)) 2
                       (fresh_number_iterator, new_world ())) \<and>
            concat_pages pages = Inr [PInt 7, PInt 8])"
proof -
  have a: "Iterator_flatten 3 (PageIterator_next scripted)
             (fresh_cursor_iterator, new_world [Body first_page, Body last_page])
           = Some (Inr [PInt 1, PInt 2, PInt 3, PInt 4, PInt 5],
                   after_calls (PageIterator_next scripted) 3
                     (fresh_cursor_iterator, new_world [Body first_page, Body last_page]))"
    by (simp add: numeral_3_eq_3 Iterator_flatten_def PageIterator_next_def transport_get_def
          scripted_def first_page_def last_page_def fresh_cursor_iterator_def PageIterator_init_def
          PageIterator_request_def dict_merge_def apply_handler_def new_world_def)
  have b: "Iterator_flatten 2 (PageNumberIterator_next (stateless short_listing))
             (fresh_number_iterator, new_world ())
           = Some (Inr [PInt 7, PInt 8],
                   after_calls (PageNumberIterator_next (stateless short_listing)) 2
                     (fresh_number_iterator, new_world ()))"
    by (simp add: numeral_2_eq_2 Iterator_flatten_def PageNumberIterator_next_def transport_get_def
          stateless_def short_listing_def fresh_number_iterator_def PageNumberIterator_init_def
          PageNumberIterator_request_def dict_merge_def apply_handler_def new_world_def)
  from a b
    flatten_equals_concatenated_pages [where n = 3 and srv = scripted
      and st = "(fresh_cursor_iterator, new_world [Body first_page, Body last_page])"
      and res = "[PInt 1, PInt 2, PInt 3, PInt 4, PInt 5]"
      and st' = "after_calls (PageIterator_next scripted) 3
                   (fresh_cursor_iterator, new_world [Body first_page, Body last_page])"]
    flatten_equals_concatenated_pages [where n = 2 and srv' = "stateless short_listing"
      and su = "(fresh_number_iterator, new_world ())"
      and res' = "[PInt 7, PInt 8]"
      and su' = "after_calls (PageNumberIterator_next (stateless short_listing)) 2
                   (fresh_number_iterator, new_world ())"]
  show ?thesis by blast
qed

section \<open>The page-number protocol\<close>

text \<open>
  Claim C4, as the code has it. \<open>page_number\<close> starts at 1. Each call of \<open>next()\<close> sends
  one request, built from the current state; its \<^verbatim>\<open>pageNumber\<close> parameter is
  \<open>page_number\<close> unless \<open>extra_parameters\<close> has a \<^verbatim>\<open>pageNumber\<close> key of its own. After \<open>n\<close>
  calls that each returned a page, counted from construction, \<open>page_number\<close> is \<open>n + 1\<close>,
  which is what the next request carries. A body of positive length adds exactly 1 to
  \<open>page_number\<close>, and only then is the handler applied, whose result or exception is the
  outcome of the call; a body of length 0 raises \<open>NoMoreItems\<close> and leaves the iterator
  as it was; and \<open>page_number\<close> changes in no call but one that fetched a body of
  positive length.
\<close>

theorem page_number_protocol:
  fixes srv :: "'t server"
  shows
  "page_number (PageNumberIterator_init u psize extra h kw) = 1 \<and>
   sent (snd (snd (PageNumberIterator_next srv (s, w)))) = sent w @ [PageNumberIterator_request s] \<and>
   (''pageNumber'' \<notin> fst ` set (pn_extra_parameters s) \<longrightarrow>
      map_of (req_params (PageNumberIterator_request s)) ''pageNumber'' = Some (PInt (page_number s))) \<and>
   ((\<forall>i<n. \<exists>p. fst (PageNumberIterator_next srv
                       (after_calls (PageNumberIterator_next srv) i
                          (PageNumberIterator_init u psize extra h kw, w))) = Inr p) \<longrightarrow>
      page_number (fst (after_calls (PageNumberIterator_next srv) n
                          (PageNumberIterator_init u psize extra h kw, w))) = int n + 1) \<and>
   (srv (tstate w) (PageNumberIterator_request s) = (Body d, t') \<and> py_len d = Inr m \<and> 0 < m \<longrightarrow>
      fst (snd (PageNumberIterator_next srv (s, w))) = s\<lparr>page_number := page_number s + 1\<rparr> \<and>
      fst (PageNumberIterator_next srv (s, w)) = apply_handler (pn_handler s) (pn_handler_kwargs s) d) \<and>
   (srv (tstate w) (PageNumberIterator_request s) = (Body d, t') \<and> py_len d = Inr 0 \<longrightarrow>
      fst (PageNumberIterator_next srv (s, w)) = Inl NoMoreItems \<and>
      fst (snd (PageNumberIterator_next srv (s, w))) = s) \<and>
   (page_number (fst (snd (PageNumberIterator_next srv (s, w)))) \<noteq> page_number s \<longrightarrow>
      (\<exists>d' t'' m'. srv (tstate w) (PageNumberIterator_request s) = (Body d', t'') \<and>
                   py_len d' = Inr m' \<and> 0 < m'))"
proof (intro conjI impI)
  show "page_number (PageNumberIterator_init u psize extra h kw) = 1"
    by (simp add: PageNumberIterator_init_def)
  show "sent (snd (snd (PageNumberIterator_next srv (s, w)))) = sent w @ [PageNumberIterator_request s]"
    by (rule PageNumberIterator_next_sent)
next
  assume "''pageNumber'' \<notin> fst ` set (pn_extra_parameters s)"
  then show "map_of (req_params (PageNumberIterator_request s)) ''pageNumber'' = Some (PInt (page_number s))"
    by (simp add: PageNumberIterator_request_def dict_merge_lookup_fresh)
next
  let ?s0 = "PageNumberIterator_init u psize extra h kw"
  assume "\<forall>i<n. \<exists>p. fst (PageNumberIterator_next srv
                        (after_calls (PageNumberIterator_next srv) i (?s0, w))) = Inr p"
  then have "fst (after_calls (PageNumberIterator_next srv) n (?s0, w))
               = ?s0\<lparr>page_number := page_number ?s0 + int n\<rparr>"
    by (rule page_number_after_pages)
  then show "page_number (fst (after_calls (PageNumberIterator_next srv) n (?s0, w))) = int n + 1"
    by (simp add: PageNumberIterator_init_def)
next
  assume a: "srv (tstate w) (PageNumberIterator_request s) = (Body d, t') \<and> py_len d = Inr m \<and> 0 < m"
  then have eq: "PageNumberIterator_next srv (s, w) =
           (apply_handler (pn_handler s) (pn_handler_kwargs s) d,
            (s\<lparr>page_number := page_number s + 1\<rparr>,
             w\<lparr>tstate := t', sent := sent w @ [PageNumberIterator_request s]\<rparr>))"
    by (intro PageNumberIterator_next_page) auto
  show "fst (snd (PageNumberIterator_next srv (s, w))) = s\<lparr>page_number := page_number s + 1\<rparr>"
    unfolding eq by simp
  show "fst (PageNumberIterator_next srv (s, w)) = apply_handler (pn_handler s) (pn_handler_kwargs s) d"
    unfolding eq by simp
next
  assume a: "srv (tstate w) (PageNumberIterator_request s) = (Body d, t') \<and> py_len d = Inr 0"
  then have eq: "PageNumberIterator_next srv (s, w) =
           (Inl NoMoreItems, (s, w\<lparr>tstate := t', sent := sent w @ [PageNumberIterator_request s]\<rparr>))"
    by (intro PageNumberIterator_next_empty) auto
  show "fst (PageNumberIterator_next srv (s, w)) = Inl NoMoreItems"
    unfolding eq by simp
  show "fst (snd (PageNumberIterator_next srv (s, w))) = s"
    unfolding eq by simp
next
  assume "page_number (fst (snd (PageNumberIterator_next srv (s, w)))) \<noteq> page_number s"
  then show "\<exists>d' t'' m'. srv (tstate w) (PageNumberIterator_request s) = (Body d', t'') \<and>
                         py_len d' = Inr m' \<and> 0 < m'"
    by (rule PageNumberIterator_next_changed)
qed

theorem page_number_protocol_witness:
  "''pageNumber'' \<notin> fst ` set (pn_extra_parameters fresh_number_iterator) \<and>
   map_of (req_params (PageNumberIterator_request fresh_number_iterator)) ''pageNumber'' = Some (PInt 1) \<and>
   fst (PageNumberIterator_next (stateless short_listing) (fresh_number_iterator, new_world ()))
     = Inr (PList [PInt 7, PInt 8]) \<and>
   page_number (fst (after_calls (PageNumberIterator_next (stateless short_listing)) 1
                       (fresh_number_iterator, new_world ()))) = 2 \<and>
   fst (snd (PageNumberIterator_next (stateless short_listing) (fresh_number_iterator, new_world ())))
     = fresh_number_iterator\<lparr>page_number := 2\<rparr> \<and>
   page_number (fst (snd (PageNumberIterator_next (stateless short_listing)
                            (fresh_number_iterator, new_world ()))))
     \<noteq> page_number fresh_number_iterator \<and>
   fst (PageNumberIterator_next (stateless short_listing)
          (fresh_number_iterator\<lparr>page_number := 2\<rparr>, new_world ())) = Inl NoMoreItems \<and>
   fst (snd (PageNumberIterator_next (stateless short_listing)
               (fresh_number_iterator\<lparr>page_number := 2\<rparr>, new_world ())))
     = fresh_number_iterator\<lparr>page_number := 2\<rparr> \<and>
   fst (PageNumberIterator_next (stateless short_listing) (brittle_number_iterator, new_world ()))
     = Inl (HandlerError ''bad record'') \<and>
   fst (snd (PageNumberIterator_next (stateless short_listing) (brittle_number_iterator, new_world ())))
     = brittle_number_iterator\<lparr>page_number := 2\<rparr>"
proof -
  let ?srv = "stateless short_listing :: unit server"
  let ?s = "PageNumberIterator_init ''https://chat.example/v2/conversations'' 10 None None None"
  let ?b = "PageNumberIterator_init ''https://chat.example/v2/conversations'' 10 None
              (Some (\<lambda>kwargs item_data. Inl (HandlerOther ''bad record''))) None"
  have fresh: "fresh_number_iterator = ?s"
    by (simp add: fresh_number_iterator_def)
  have brittle: "brittle_number_iterator = ?b"
    by (simp add: brittle_number_iterator_def)
  have keys: "''pageNumber'' \<notin> fst ` set (pn_extra_parameters ?s)"
    by (simp add: PageNumberIterator_init_def)
  have body1: "?srv (tstate (new_world ())) (PageNumberIterator_request ?s)
                 = (Body (PList [PInt 7, PInt 8]), ()) \<and>
               py_len (PList [PInt 7, PInt 8]) = Inr 2 \<and> (0::nat) < 2"
    by (simp add: stateless_def short_listing_def PageNumberIterator_request_def dict_merge_def
          PageNumberIterator_init_def)
  have body2: "?srv (tstate (new_world ())) (PageNumberIterator_request (?s\<lparr>page_number := 2\<rparr>))
                 = (Body (PList []), ()) \<and> py_len (PList []) = Inr 0"
    by (simp add: stateless_def short_listing_def PageNumberIterator_request_def dict_merge_def
          PageNumberIterator_init_def)
  have body3: "?srv (tstate (new_world ())) (PageNumberIterator_request ?b)
                 = (Body (PList [PInt 7, PInt 8]), ()) \<and>
               py_len (PList [PInt 7, PInt 8]) = Inr 2 \<and> (0::nat) < 2"
    by (simp add: stateless_def short_listing_def PageNumberIterator_request_def dict_merge_def
          PageNumberIterator_init_def)
  have first: "fst (PageNumberIterator_next ?srv (?s, new_world ())) = Inr (PList [PInt 7, PInt 8])"
    by (simp add: PageNumberIterator_next_def transport_get_def stateless_def short_listing_def
          PageNumberIterator_request_def dict_merge_def PageNumberIterator_init_def
          apply_handler_def new_world_def)
  then have run: "\<forall>i<1. \<exists>p. fst (PageNumberIterator_next ?srv
                     (after_calls (PageNumberIterator_next ?srv) i (?s, new_world ()))) = Inr p"
    by simp
  have two: "page_number ?s + 1 = 2" "page_number ?b + 1 = 2"
    by (simp_all add: PageNumberIterator_init_def)
  have raised: "apply_handler (pn_handler ?b) (pn_handler_kwargs ?b) (PList [PInt 7, PInt 8])
                  = Inl (HandlerError ''bad record'')"
    by (simp add: apply_handler_def call_handler_def PageNumberIterator_init_def)
  note a = page_number_protocol [where srv = ?srv and u = "''https://chat.example/v2/conversations''"
      and psize = 10 and extra = None and h = None and kw = None and s = ?s and w = "new_world ()"
      and n = 1 and d = "PList [PInt 7, PInt 8]" and t' = "()" and m = 2]
  note b = page_number_protocol [where srv = ?srv and s = "?s\<lparr>page_number := 2\<rparr>"
      and w = "new_world ()" and d = "PList []" and t' = "()"]
  note c = page_number_protocol [where srv = ?srv and s = ?b
      and w = "new_world ()" and d = "PList [PInt 7, PInt 8]" and t' = "()" and m = 2]
  from a keys body1 run
  have p: "map_of (req_params (PageNumberIterator_request ?s)) ''pageNumber'' = Some (PInt 1) \<and>
           page_number (fst (after_calls (PageNumberIterator_next ?srv) 1 (?s, new_world ()))) = 2 \<and>
           fst (snd (PageNumberIterator_next ?srv (?s, new_world ()))) = ?s\<lparr>page_number := 2\<rparr>"
    unfolding two [symmetric] by (simp add: PageNumberIterator_init_def)
  then have changed: "page_number (fst (snd (PageNumberIterator_next ?srv (?s, new_world ()))))
                        \<noteq> page_number ?s"
    by (simp add: PageNumberIterator_init_def)
  from b body2
  have q: "fst (PageNumberIterator_next ?srv (?s\<lparr>page_number := 2\<rparr>, new_world ())) = Inl NoMoreItems \<and>
           fst (snd (PageNumberIterator_next ?srv (?s\<lparr>page_number := 2\<rparr>, new_world ())))
             = ?s\<lparr>page_number := 2\<rparr>"
    by simp
  from c body3 raised
  have r: "fst (PageNumberIterator_next ?srv (?b, new_world ())) = Inl (HandlerError ''bad record'') \<and>
           fst (snd (PageNumberIterator_next ?srv (?b, new_world ()))) = ?b\<lparr>page_number := 2\<rparr>"
    unfolding two [symmetric] by simp
  from keys first p changed q r show ?thesis
    unfolding fresh brittle by simp
qed

text \<open>
  The claim as written fails when the caller's extra parameters carry \<^verbatim>\<open>pageNumber\<close>:
  they are merged last, so the first request asks for page 7.
\<close>

theorem page_number_overridden_counterexample:
  "sent (snd (snd (PageNumberIterator_next scripted
      (PageNumberIterator_init ''https://chat.example/v2/conversations'' 10
         (Some [(''pageNumber'', PInt 7)]) None None,
       new_world [Body (PList [PInt 1])]))))
   = [\<lparr> req_url = ''https://chat.example/v2/conversations'',
        req_params = [(''pageNumber'', PInt 7), (''pageSize'', PInt 10)] \<rparr>]"
  by (simp add: PageNumberIterator_next_def transport_get_def scripted_def
        PageNumberIterator_request_def dict_merge_def PageNumberIterator_init_def
        apply_handler_def new_world_def)

section \<open>The cursor protocol\<close>

text \<open>
  Claim C5, as the code has it. A new iterator has the empty string as \<open>next_cursor\<close> and
  has not started. A call with \<open>next_started\<close> false never raises \<open>NoMoreItems\<close>: it sends
  exactly one request, whose \<^verbatim>\<open>cursor\<close> parameter is the value \<open>next_cursor\<close> holds at
  that moment (unless \<open>extra_parameters\<close> has a \<^verbatim>\<open>cursor\<close> key), and leaves
  \<open>next_started\<close> true. With \<open>next_started\<close> true, an empty (falsy) cursor ends the
  sequence without a request.
\<close>

theorem first_call_sends_current_cursor:
  "next_cursor (PageIterator_init u so lim extra h kw) = PStr [] \<and>
   \<not> next_started (PageIterator_init u so lim extra h kw) \<and>
   (\<not> next_started s \<longrightarrow>
      fst (PageIterator_next srv (s, w)) \<noteq> Inl NoMoreItems \<and>
      sent (snd (snd (PageIterator_next srv (s, w))))
        = sent w @ [PageIterator_request (s\<lparr>next_started := True\<rparr>)] \<and>
      (''cursor'' \<notin> fst ` set (extra_parameters s) \<longrightarrow>
         map_of (req_params (PageIterator_request (s\<lparr>next_started := True\<rparr>))) ''cursor''
           = Some (next_cursor s)) \<and>
      next_started (fst (snd (PageIterator_next srv (s, w))))) \<and>
   (next_started s \<and> \<not> truthy (next_cursor s) \<longrightarrow>
      PageIterator_next srv (s, w) = (Inl NoMoreItems, (s, w)))"
proof (intro conjI impI)
  show "next_cursor (PageIterator_init u so lim extra h kw) = PStr []"
    by (simp add: PageIterator_init_def)
  show "\<not> next_started (PageIterator_init u so lim extra h kw)"
    by (simp add: PageIterator_init_def)
next
  assume first: "\<not> next_started s"
  then show "fst (PageIterator_next srv (s, w)) \<noteq> Inl NoMoreItems"
    by (simp add: PageIterator_next_exhaustion_iff)
  from first show "sent (snd (snd (PageIterator_next srv (s, w))))
                     = sent w @ [PageIterator_request (s\<lparr>next_started := True\<rparr>)]"
    by (simp add: PageIterator_next_sent)
  from first show "next_started (fst (snd (PageIterator_next srv (s, w))))"
    by (simp add: PageIterator_next_started)
next
  assume "''cursor'' \<notin> fst ` set (extra_parameters s)"
  then show "map_of (req_params (PageIterator_request (s\<lparr>next_started := True\<rparr>))) ''cursor''
               = Some (next_cursor s)"
    by (simp add: PageIterator_request_def dict_merge_lookup_fresh)
next
  assume "next_started s \<and> \<not> truthy (next_cursor s)"
  then show "PageIterator_next srv (s, w) = (Inl NoMoreItems, (s, w))"
    by (simp add: PageIterator_next_guard)
qed

theorem first_call_sends_current_cursor_witness:
  "\<not> next_started (fresh_cursor_iterator\<lparr>next_cursor := PStr ''abc''\<rparr>) \<and>
   ''cursor'' \<notin> fst ` set (extra_parameters (fresh_cursor_iterator\<lparr>next_cursor := PStr ''abc''\<rparr>)) \<and>
   fst (PageIterator_next scripted
          (fresh_cursor_iterator\<lparr>next_cursor := PStr ''abc''\<rparr>, new_world [Body last_page]))
     \<noteq> Inl NoMoreItems \<and>
   map_of (req_params (PageIterator_request
             (fresh_cursor_iterator\<lparr>next_cursor := PStr ''abc'', next_started := True\<rparr>))) ''cursor''
     = Some (PStr ''abc'') \<and>
   next_started spent_cursor_iterator \<and> \<not> truthy (next_cursor spent_cursor_iterator) \<and>
   PageIterator_next scripted (spent_cursor_iterator, new_world [Body last_page])
     = (Inl NoMoreItems, (spent_cursor_iterator, new_world [Body last_page]))"
proof -
  let ?s = "fresh_cursor_iterator\<lparr>next_cursor := PStr ''abc''\<rparr>"
  have a: "\<not> next_started ?s"
    by (simp add: fresh_cursor_iterator_def PageIterator_init_def)
  have b: "''cursor'' \<notin> fst ` set (extra_parameters ?s)"
    by (simp add: fresh_cursor_iterator_def PageIterator_init_def)
  have c: "next_started spent_cursor_iterator \<and> \<not> truthy (next_cursor spent_cursor_iterator)"
    by (simp add: spent_cursor_iterator_def fresh_cursor_iterator_def PageIterator_init_def)
  from a b c
    first_call_sends_current_cursor [where s = ?s and srv = scripted and w = "new_world [Body last_page]"]
    first_call_sends_current_cursor [where s = spent_cursor_iterator and srv = scripted
      and w = "new_world [Body last_page]"]
  show ?thesis by simp
qed

text \<open>
  The claim as written fails when \<open>next_cursor\<close> holds a cursor before the first call:
  the request carries that cursor, not the empty string.
\<close>

theorem first_call_cursor_counterexample:
  "\<not> next_started (fresh_cursor_iterator\<lparr>next_cursor := PStr ''abc''\<rparr>) \<and>
   sent (snd (snd (PageIterator_next scripted
      (fresh_cursor_iterator\<lparr>next_cursor := PStr ''abc''\<rparr>, new_world [Body last_page]))))
   = [\<lparr> req_url = ''https://groups.example/v1/members'',
        req_params = [(''cursor'', PStr ''abc''), (''limit'', PInt 10), (''sortOrder'', PStr ''Asc'')] \<rparr>]"
  by (simp add: PageIterator_next_def transport_get_def scripted_def last_page_def
        PageIterator_request_def dict_merge_def fresh_cursor_iterator_def PageIterator_init_def
        apply_handler_def new_world_def)

text \<open>
  Claim C6. When the guard does not fire and the body has both cursor keys and an empty
  \<^verbatim>\<open>data\<close> array, \<open>next()\<close> returns the empty list. \<open>next()\<close> raises \<open>NoMoreItems\<close>
  exactly when \<open>next_started\<close> is true and \<open>next_cursor\<close> is falsy at the call, whatever
  the server would answer.
\<close>

theorem empty_page_is_returned:
  "(\<not> (next_started s \<and> \<not> truthy (next_cursor s)) \<and>
    srv (tstate w) (PageIterator_request (s\<lparr>next_started := True\<rparr>)) = (Body (PDict kvs), t') \<and>
    map_of kvs ''nextPageCursor'' = Some nc \<and>
    map_of kvs ''previousPageCursor'' = Some pc \<and>
    map_of kvs ''data'' = Some (PList [])
    \<longrightarrow> fst (PageIterator_next srv (s, w)) = Inr (PList [])) \<and>
   (fst (PageIterator_next srv (s, w)) = Inl NoMoreItems
    \<longleftrightarrow> next_started s \<and> \<not> truthy (next_cursor s))"
proof (intro conjI impI)
  assume a: "\<not> (next_started s \<and> \<not> truthy (next_cursor s)) \<and>
    srv (tstate w) (PageIterator_request (s\<lparr>next_started := True\<rparr>)) = (Body (PDict kvs), t') \<and>
    map_of kvs ''nextPageCursor'' = Some nc \<and>
    map_of kvs ''previousPageCursor'' = Some pc \<and>
    map_of kvs ''data'' = Some (PList [])"
  then have "PageIterator_next srv (s, w) =
      (apply_handler (handler s) (handler_kwargs s) (PList []),
       (s\<lparr>next_started := True, next_cursor := nc, previous_cursor := pc\<rparr>,
        w\<lparr>tstate := t', sent := sent w @ [PageIterator_request (s\<lparr>next_started := True\<rparr>)]\<rparr>))"
    by (subst PageIterator_next_fetch [of s srv w kvs t']) (simp_all add: Let_def)
  moreover have "apply_handler (handler s) (handler_kwargs s) (PList []) = Inr (PList [])"
    by (simp add: apply_handler_def split: option.splits)
  ultimately show "fst (PageIterator_next srv (s, w)) = Inr (PList [])"
    by simp
next
  show "fst (PageIterator_next srv (s, w)) = Inl NoMoreItems
          \<longleftrightarrow> next_started s \<and> \<not> truthy (next_cursor s)"
    by (rule PageIterator_next_exhaustion_iff)
qed

theorem empty_page_is_returned_witness:
  "\<not> (next_started (spent_cursor_iterator\<lparr>next_cursor := PStr ''abc''\<rparr>) \<and>
      \<not> truthy (next_cursor (spent_cursor_iterator\<lparr>next_cursor := PStr ''abc''\<rparr>))) \<and>
   fst (PageIterator_next scripted
          (spent_cursor_iterator\<lparr>next_cursor := PStr ''abc''\<rparr>, new_world [Body empty_last_page]))
     = Inr (PList []) \<and>
   fst (PageIterator_next scripted
          (spent_cursor_iterator\<lparr>next_cursor := PStr ''abc''\<rparr>, new_world [Body empty_last_page]))
     \<noteq> Inl NoMoreItems \<and>
   fst (PageIterator_next scripted
          (snd (PageIterator_next scripted
                  (spent_cursor_iterator\<lparr>next_cursor := PStr ''abc''\<rparr>,
                   new_world [Body empty_last_page]))))
     = Inl NoMoreItems"
proof -
  let ?s = "spent_cursor_iterator\<lparr>next_cursor := PStr ''abc''\<rparr>"
  let ?w = "new_world [Body empty_last_page]"
  let ?kvs = "[(''previousPageCursor'', PStr ''abc''), (''nextPageCursor'', PStr ''''),
               (''data'', PList [])]"
  have guard: "\<not> (next_started ?s \<and> \<not> truthy (next_cursor ?s))"
    by simp
  have body: "scripted (tstate ?w) (PageIterator_request (?s\<lparr>next_started := True\<rparr>))
                = (Body (PDict ?kvs), [])"
    by (simp add: scripted_def new_world_def empty_last_page_def)
  have keys: "map_of ?kvs ''nextPageCursor'' = Some (PStr '''') \<and>
              map_of ?kvs ''previousPageCursor'' = Some (PStr ''abc'') \<and>
              map_of ?kvs ''data'' = Some (PList [])"
    by simp
  have after: "snd (PageIterator_next scripted (?s, ?w)) =
                 (?s\<lparr>next_started := True, next_cursor := PStr '''', previous_cursor := PStr ''abc''\<rparr>,
                  ?w\<lparr>tstate := [], sent := sent ?w @ [PageIterator_request (?s\<lparr>next_started := True\<rparr>)]\<rparr>)"
    using guard body by (subst PageIterator_next_fetch [of ?s scripted ?w ?kvs "[]"]) (simp_all add: Let_def)
  note first = empty_page_is_returned [where s = ?s and srv = scripted and w = ?w and kvs = ?kvs
      and t' = "[]" and nc = "PStr ''''" and pc = "PStr ''abc''"]
  note second = empty_page_is_returned [where srv = scripted
      and s = "?s\<lparr>next_started := True, next_cursor := PStr '''', previous_cursor := PStr ''abc''\<rparr>"
      and w = "?w\<lparr>tstate := [], sent := sent ?w @ [PageIterator_request (?s\<lparr>next_started := True\<rparr>)]\<rparr>"]
  from guard body keys first have r1: "fst (PageIterator_next scripted (?s, ?w)) = Inr (PList [])"
    by blast
  from second have r2: "fst (PageIterator_next scripted (snd (PageIterator_next scripted (?s, ?w))))
                          = Inl NoMoreItems"
    unfolding after by simp
  from guard r1 r2 show ?thesis by simp
qed

text \<open>
  Claim C9, as the code has it. When the guard does not fire and the body is an object:
  if it has both \<^verbatim>\<open>nextPageCursor\<close> and \<^verbatim>\<open>previousPageCursor\<close>, their raw values,
  whatever they are, are stored into \<open>next_cursor\<close> and \<open>previous_cursor\<close> and the call
  goes on to \<^verbatim>\<open>data\<close>; if it lacks either key, \<open>next()\<close> raises \<open>KeyError\<close>.
\<close>

theorem cursors_stored_when_present:
  "\<not> (next_started s \<and> \<not> truthy (next_cursor s)) \<and>
   srv (tstate w) (PageIterator_request (s\<lparr>next_started := True\<rparr>)) = (Body (PDict kvs), t')
   \<longrightarrow>
     (map_of kvs ''nextPageCursor'' = Some nc \<and> map_of kvs ''previousPageCursor'' = Some pc
      \<longrightarrow> next_cursor (fst (snd (PageIterator_next srv (s, w)))) = nc \<and>
          previous_cursor (fst (snd (PageIterator_next srv (s, w)))) = pc \<and>
          fst (PageIterator_next srv (s, w)) =
            (case map_of kvs ''data'' of
               None \<Rightarrow> Inl KeyError
             | Some d \<Rightarrow> apply_handler (handler s) (handler_kwargs s) d)) \<and>
     (map_of kvs ''nextPageCursor'' = None \<or> map_of kvs ''previousPageCursor'' = None
      \<longrightarrow> fst (PageIterator_next srv (s, w)) = Inl KeyError)"
proof (intro impI)
  assume a: "\<not> (next_started s \<and> \<not> truthy (next_cursor s)) \<and>
    srv (tstate w) (PageIterator_request (s\<lparr>next_started := True\<rparr>)) = (Body (PDict kvs), t')"
  then have eq: "PageIterator_next srv (s, w) =
     (let s1 = s\<lparr>next_started := True\<rparr>;
          w1 = w\<lparr>tstate := t', sent := sent w @ [PageIterator_request s1]\<rparr>
      in case map_of kvs ''nextPageCursor'' of
           None \<Rightarrow> (Inl KeyError, (s1, w1))
         | Some nc \<Rightarrow>
             (case map_of kvs ''previousPageCursor'' of
                None \<Rightarrow> (Inl KeyError, (s1\<lparr>next_cursor := nc\<rparr>, w1))
              | Some pc \<Rightarrow>
                  (case map_of kvs ''data'' of
                     None \<Rightarrow> (Inl KeyError, (s1\<lparr>next_cursor := nc, previous_cursor := pc\<rparr>, w1))
                   | Some d \<Rightarrow> (apply_handler (handler s) (handler_kwargs s) d,
                                (s1\<lparr>next_cursor := nc, previous_cursor := pc\<rparr>, w1)))))"
    by (intro PageIterator_next_fetch) simp_all
  show "(map_of kvs ''nextPageCursor'' = Some nc \<and> map_of kvs ''previousPageCursor'' = Some pc
      \<longrightarrow> next_cursor (fst (snd (PageIterator_next srv (s, w)))) = nc \<and>
          previous_cursor (fst (snd (PageIterator_next srv (s, w)))) = pc \<and>
          fst (PageIterator_next srv (s, w)) =
            (case map_of kvs ''data'' of
               None \<Rightarrow> Inl KeyError
             | Some d \<Rightarrow> apply_handler (handler s) (handler_kwargs s) d)) \<and>
     (map_of kvs ''nextPageCursor'' = None \<or> map_of kvs ''previousPageCursor'' = None
      \<longrightarrow> fst (PageIterator_next srv (s, w)) = Inl KeyError)"
    unfolding eq by (auto simp: Let_def split: option.splits)
qed

theorem cursors_stored_when_present_witness:
  "\<not> (next_started fresh_cursor_iterator \<and> \<not> truthy (next_cursor fresh_cursor_iterator)) \<and>
   next_cursor (fst (snd (PageIterator_next scripted
                            (fresh_cursor_iterator, new_world [Body last_page])))) = PNone \<and>
   previous_cursor (fst (snd (PageIterator_next scripted
                            (fresh_cursor_iterator, new_world [Body last_page])))) = PStr ''xyz'' \<and>
   fst (PageIterator_next scripted (fresh_cursor_iterator, new_world [Body last_page]))
     = Inr (PList [PInt 4, PInt 5]) \<and>
   fst (PageIterator_next scripted (fresh_cursor_iterator, new_world [Body cursorless_page]))
     = Inl KeyError"
proof -
  let ?s = fresh_cursor_iterator
  let ?kvs = "[(''previousPageCursor'', PStr ''xyz''), (''nextPageCursor'', PNone),
               (''data'', PList [PInt 4, PInt 5])]"
  let ?kvs' = "[(''previousPageCursor'', PNone), (''data'', PList [PInt 1])]"
  have guard: "\<not> (next_started ?s \<and> \<not> truthy (next_cursor ?s))"
    by (simp add: fresh_cursor_iterator_def PageIterator_init_def)
  have none: "handler ?s = None"
    by (simp add: fresh_cursor_iterator_def PageIterator_init_def)
  have body: "scripted (tstate (new_world [Body last_page])) (PageIterator_request (?s\<lparr>next_started := True\<rparr>))
                = (Body (PDict ?kvs), [])"
    by (simp add: scripted_def new_world_def last_page_def)
  have body': "scripted (tstate (new_world [Body cursorless_page]))
                 (PageIterator_request (?s\<lparr>next_started := True\<rparr>))
                = (Body (PDict ?kvs'), [])"
    by (simp add: scripted_def new_world_def cursorless_page_def)
  have keys: "map_of ?kvs ''nextPageCursor'' = Some PNone \<and>
              map_of ?kvs ''previousPageCursor'' = Some (PStr ''xyz'') \<and>
              map_of ?kvs ''data'' = Some (PList [PInt 4, PInt 5])"
    by simp
  have keys': "map_of ?kvs' ''nextPageCursor'' = None"
    by simp
  note present = cursors_stored_when_present [where s = ?s and srv = scripted
      and w = "new_world [Body last_page]" and kvs = ?kvs and t' = "[]"
      and nc = PNone and pc = "PStr ''xyz''"]
  note absent = cursors_stored_when_present [where s = ?s and srv = scripted
      and w = "new_world [Body cursorless_page]" and kvs = ?kvs' and t' = "[]"]
  from guard body keys present
  have p: "next_cursor (fst (snd (PageIterator_next scripted (?s, new_world [Body last_page])))) = PNone \<and>
        previous_cursor (fst (snd (PageIterator_next scripted (?s, new_world [Body last_page]))))
          = PStr ''xyz'' \<and>
        fst (PageIterator_next scripted (?s, new_world [Body last_page]))
          = apply_handler (handler ?s) (handler_kwargs ?s) (PList [PInt 4, PInt 5])"
    by simp
  from guard body' keys' absent
  have q: "fst (PageIterator_next scripted (?s, new_world [Body cursorless_page])) = Inl KeyError"
    by blast
  from guard p q none show ?thesis
    by (simp add: apply_handler_def)
qed

text \<open>
  The claim as written fails on a body without \<^verbatim>\<open>nextPageCursor\<close>: the subscript
  raises \<open>KeyError\<close>.
\<close>

theorem missing_cursor_key_counterexample:
  "fst (PageIterator_next scripted (fresh_cursor_iterator, new_world [Body cursorless_page]))
     = Inl KeyError"
  by (simp add: PageIterator_next_def transport_get_def scripted_def cursorless_page_def
        fresh_cursor_iterator_def PageIterator_init_def new_world_def Let_def)

text \<open>
  Claim C10. \<open>next_cursor\<close> takes the raw value of \<^verbatim>\<open>nextPageCursor\<close>, and the later
  guard tests its truthiness: with \<open>next_started\<close> true, \<open>None\<close> ends the sequence
  exactly as the empty string does, with no request and no change of state; and
  \<open>NoMoreItems\<close> is raised exactly when \<open>next_started\<close> is true and \<open>next_cursor\<close> is
  falsy.
\<close>

theorem falsy_cursor_ends_sequence:
  "(\<not> (next_started s \<and> \<not> truthy (next_cursor s)) \<and>
    srv (tstate w) (PageIterator_request (s\<lparr>next_started := True\<rparr>)) = (Body (PDict kvs), t') \<and>
    map_of kvs ''nextPageCursor'' = Some c \<and> map_of kvs ''previousPageCursor'' = Some pc
    \<longrightarrow> next_cursor (fst (snd (PageIterator_next srv (s, w)))) = c \<and>
        next_started (fst (snd (PageIterator_next srv (s, w))))) \<and>
   (next_started s \<and> c \<in> {PNone, PStr []}
    \<longrightarrow> PageIterator_next srv (s\<lparr>next_cursor := c\<rparr>, w) = (Inl NoMoreItems, (s\<lparr>next_cursor := c\<rparr>, w))) \<and>
   (fst (PageIterator_next srv (s, w)) = Inl NoMoreItems
    \<longleftrightarrow> next_started s \<and> \<not> truthy (next_cursor s))"
proof (intro conjI impI)
  assume a: "\<not> (next_started s \<and> \<not> truthy (next_cursor s)) \<and>
    srv (tstate w) (PageIterator_request (s\<lparr>next_started := True\<rparr>)) = (Body (PDict kvs), t') \<and>
    map_of kvs ''nextPageCursor'' = Some c \<and> map_of kvs ''previousPageCursor'' = Some pc"
  then show "next_cursor (fst (snd (PageIterator_next srv (s, w)))) = c"
    by (subst PageIterator_next_fetch [of s srv w kvs t']) (simp_all add: Let_def split: option.splits)
  from a show "next_started (fst (snd (PageIterator_next srv (s, w))))"
    by (simp add: PageIterator_next_started)
next
  assume "next_started s \<and> c \<in> {PNone, PStr []}"
  then have "next_started (s\<lparr>next_cursor := c\<rparr>)" and "\<not> truthy (next_cursor (s\<lparr>next_cursor := c\<rparr>))"
    by auto
  then show "PageIterator_next srv (s\<lparr>next_cursor := c\<rparr>, w) = (Inl NoMoreItems, (s\<lparr>next_cursor := c\<rparr>, w))"
    by (rule PageIterator_next_guard)
next
  show "fst (PageIterator_next srv (s, w)) = Inl NoMoreItems
          \<longleftrightarrow> next_started s \<and> \<not> truthy (next_cursor s)"
    by (rule PageIterator_next_exhaustion_iff)
qed

theorem falsy_cursor_ends_sequence_witness:
  "\<not> (next_started fresh_cursor_iterator \<and> \<not> truthy (next_cursor fresh_cursor_iterator)) \<and>
   next_cursor (fst (snd (PageIterator_next scripted
                            (fresh_cursor_iterator, new_world [Body last_page])))) = PNone \<and>
   next_started (fst (snd (PageIterator_next scripted
                            (fresh_cursor_iterator, new_world [Body last_page])))) \<and>
   next_started spent_cursor_iterator \<and> PNone \<in> {PNone, PStr []} \<and>
   PageIterator_next scripted (spent_cursor_iterator\<lparr>next_cursor := PNone\<rparr>, new_world [Body first_page])
     = (Inl NoMoreItems, (spent_cursor_iterator\<lparr>next_cursor := PNone\<rparr>, new_world [Body first_page])) \<and>
   PageIterator_next scripted (spent_cursor_iterator\<lparr>next_cursor := PStr []\<rparr>, new_world [Body first_page])
     = (Inl NoMoreItems, (spent_cursor_iterator\<lparr>next_cursor := PStr []\<rparr>, new_world [Body first_page]))"
proof -
  let ?s = fresh_cursor_iterator
  let ?kvs = "[(''previousPageCursor'', PStr ''xyz''), (''nextPageCursor'', PNone),
               (''data'', PList [PInt 4, PInt 5])]"
  have guard: "\<not> (next_started ?s \<and> \<not> truthy (next_cursor ?s))"
    by (simp add: fresh_cursor_iterator_def PageIterator_init_def)
  have body: "scripted (tstate (new_world [Body last_page])) (PageIterator_request (?s\<lparr>next_started := True\<rparr>))
                = (Body (PDict ?kvs), [])"
    by (simp add: scripted_def new_world_def last_page_def)
  have keys: "map_of ?kvs ''nextPageCursor'' = Some PNone \<and>
              map_of ?kvs ''previousPageCursor'' = Some (PStr ''xyz'')"
    by simp
  have started: "next_started spent_cursor_iterator"
    by (simp add: spent_cursor_iterator_def)
  note fetch = falsy_cursor_ends_sequence [where s = ?s and srv = scripted
      and w = "new_world [Body last_page]" and kvs = ?kvs and t' = "[]"
      and c = PNone and pc = "PStr ''xyz''"]
  note null = falsy_cursor_ends_sequence [where s = spent_cursor_iterator and srv = scripted
      and w = "new_world [Body first_page]" and c = PNone]
  note empty = falsy_cursor_ends_sequence [where s = spent_cursor_iterator and srv = scripted
      and w = "new_world [Body first_page]" and c = "PStr []"]
  from guard body keys fetch
  have p: "next_cursor (fst (snd (PageIterator_next scripted (?s, new_world [Body last_page])))) = PNone \<and>
           next_started (fst (snd (PageIterator_next scripted (?s, new_world [Body last_page]))))"
    by blast
  from started null
  have q: "PageIterator_next scripted (spent_cursor_iterator\<lparr>next_cursor := PNone\<rparr>, new_world [Body first_page])
     = (Inl NoMoreItems, (spent_cursor_iterator\<lparr>next_cursor := PNone\<rparr>, new_world [Body first_page]))"
    by simp
  from started empty
  have r: "PageIterator_next scripted (spent_cursor_iterator\<lparr>next_cursor := PStr []\<rparr>, new_world [Body first_page])
     = (Inl NoMoreItems, (spent_cursor_iterator\<lparr>next_cursor := PStr []\<rparr>, new_world [Body first_page]))"
    by simp
  from guard p q r started show ?thesis by simp
qed

section \<open>The item view\<close>

lemma read_item_no_index_error: "fst (read_item st) \<noteq> Inl IndexError"
  by (cases st) (simp add: read_item_def split: sum.splits)

lemma IteratorItems_anext_index_error:
  assumes "fst (IteratorItems_anext nxt (v, w)) = Inl IndexError"
  shows "py_len (v_items v) = Inr (v_position v) \<and> fst (nxt (v_iterator v, w)) = Inl IndexError"
proof (cases "py_len (v_items v)")
  case (Inl e)
  then have "e = TypeError" by (rule py_len_error)
  with Inl assms show ?thesis by (simp add: IteratorItems_anext_def)
next
  case (Inr n)
  show ?thesis
  proof (cases "v_position v = n")
    case False
    with Inr assms show ?thesis
      by (simp add: IteratorItems_anext_def read_item_no_index_error)
  next
    case True
    obtain r it' w' where step: "nxt (v_iterator v, w) = (r, (it', w'))"
      by (cases "nxt (v_iterator v, w)") auto
    have "r = Inl IndexError"
    proof (cases r)
      case (Inl e)
      with True Inr step assms show ?thesis
        by (simp add: IteratorItems_anext_def Let_def split: if_splits)
    next
      case r: (Inr page)
      with True Inr step assms show ?thesis
        by (simp add: IteratorItems_anext_def Let_def read_item_no_index_error)
    qed
    with True Inr step show ?thesis by simp
  qed
qed

lemma mid_traversal_eq:
  "mid_traversal =
     (\<lparr> v_iterator = fresh_cursor_iterator
          \<lparr>next_started := True, next_cursor := PStr ''abc'', previous_cursor := PNone\<rparr>,
        v_position = 1, v_items = PList [PInt 1, PInt 2, PInt 3] \<rparr>,
      \<lparr> tstate = [Body last_page],
        sent = [PageIterator_request (fresh_cursor_iterator\<lparr>next_started := True\<rparr>)] \<rparr>)"
  by (simp add: mid_traversal_def IteratorItems_anext_def IteratorItems_init_def read_item_def
        PageIterator_next_def transport_get_def scripted_def first_page_def
        fresh_cursor_iterator_def PageIterator_init_def apply_handler_def new_world_def Let_def)

text \<open>
  Claim C7. When the item view is at the end of its buffer and the iterator returns an
  empty list, \<^verbatim>\<open>__anext__\<close> raises \<open>StopAsyncIteration\<close>, with the position 0 and the
  empty buffer. The read of the buffer never raises \<open>IndexError\<close>: an \<open>IndexError\<close>
  that leaves \<^verbatim>\<open>__anext__\<close> was raised inside the iterator's own \<open>next()\<close>, called at the
  end of the buffer, where only \<open>NoMoreItems\<close> is caught.
\<close>

theorem empty_page_ends_items:
  "(py_len (v_items v) = Inr (v_position v) \<and> fst (nxt (v_iterator v, w)) = Inr (PList [])
    \<longrightarrow> IteratorItems_anext nxt (v, w) =
          (Inl StopAsyncIteration,
           (v\<lparr>v_iterator := fst (snd (nxt (v_iterator v, w))), v_position := 0, v_items := PList []\<rparr>,
            snd (snd (nxt (v_iterator v, w)))))) \<and>
   fst (read_item (v, w)) \<noteq> Inl IndexError \<and>
   (fst (IteratorItems_anext nxt (v, w)) = Inl IndexError
    \<longrightarrow> py_len (v_items v) = Inr (v_position v) \<and> fst (nxt (v_iterator v, w)) = Inl IndexError)"
proof (intro conjI impI)
  assume a: "py_len (v_items v) = Inr (v_position v) \<and> fst (nxt (v_iterator v, w)) = Inr (PList [])"
  obtain r it' w' where step: "nxt (v_iterator v, w) = (r, (it', w'))"
    by (cases "nxt (v_iterator v, w)") auto
  with a have r: "r = Inr (PList [])" by simp
  from a step r show "IteratorItems_anext nxt (v, w) =
          (Inl StopAsyncIteration,
           (v\<lparr>v_iterator := fst (snd (nxt (v_iterator v, w))), v_position := 0, v_items := PList []\<rparr>,
            snd (snd (nxt (v_iterator v, w)))))"
    by (simp add: IteratorItems_anext_def read_item_def Let_def)
next
  show "fst (read_item (v, w)) \<noteq> Inl IndexError"
    by (rule read_item_no_index_error)
next
  assume "fst (IteratorItems_anext nxt (v, w)) = Inl IndexError"
  then have "py_len (v_items v) = Inr (v_position v) \<and> fst (nxt (v_iterator v, w)) = Inl IndexError"
    by (rule IteratorItems_anext_index_error)
  then show "py_len (v_items v) = Inr (v_position v)"
    and "fst (nxt (v_iterator v, w)) = Inl IndexError"
    by simp_all
qed

theorem empty_page_ends_items_witness:
  "py_len (v_items (IteratorItems_init fresh_cursor_iterator))
     = Inr (v_position (IteratorItems_init fresh_cursor_iterator)) \<and>
   fst (PageIterator_next scripted (fresh_cursor_iterator, new_world [Body empty_last_page]))
     = Inr (PList []) \<and>
   fst (IteratorItems_anext (PageIterator_next scripted)
          (IteratorItems_init fresh_cursor_iterator, new_world [Body empty_last_page]))
     = Inl StopAsyncIteration \<and>
   fst (IteratorItems_anext (PageIterator_next scripted)
          (IteratorItems_init brittle_cursor_iterator, new_world [Body first_page]))
     = Inl IndexError \<and>
   fst (PageIterator_next scripted (brittle_cursor_iterator, new_world [Body first_page]))
     = Inl IndexError"
proof -
  let ?v = "IteratorItems_init fresh_cursor_iterator"
  let ?w = "new_world [Body empty_last_page]"
  let ?v' = "IteratorItems_init brittle_cursor_iterator"
  let ?w' = "new_world [Body first_page]"
  have a: "py_len (v_items ?v) = Inr (v_position ?v)"
    by (simp add: IteratorItems_init_def)
  have b: "fst (PageIterator_next scripted (v_iterator ?v, ?w)) = Inr (PList [])"
    by (simp add: IteratorItems_init_def PageIterator_next_def transport_get_def scripted_def
          empty_last_page_def PageIterator_request_def dict_merge_def fresh_cursor_iterator_def
          PageIterator_init_def apply_handler_def new_world_def)
  have c: "v_iterator ?v = fresh_cursor_iterator" "v_iterator ?v' = brittle_cursor_iterator"
    by (simp_all add: IteratorItems_init_def)
  have d: "fst (IteratorItems_anext (PageIterator_next scripted) (?v', ?w')) = Inl IndexError"
    by (simp add: IteratorItems_anext_def IteratorItems_init_def PageIterator_next_def
          transport_get_def scripted_def first_page_def PageIterator_request_def dict_merge_def
          brittle_cursor_iterator_def PageIterator_init_def apply_handler_def call_handler_def
          new_world_def Let_def)
  from a b empty_page_ends_items [where v = ?v and w = ?w and nxt = "PageIterator_next scripted"]
  have p: "fst (IteratorItems_anext (PageIterator_next scripted) (?v, ?w)) = Inl StopAsyncIteration"
    by simp
  from d empty_page_ends_items [where v = ?v' and w = ?w' and nxt = "PageIterator_next scripted"]
  have q: "fst (PageIterator_next scripted (v_iterator ?v', ?w')) = Inl IndexError"
    by blast
  from a b c d p q show ?thesis by simp
qed

text \<open>
  Claim C8. \<^verbatim>\<open>IteratorItems.__aiter__\<close> sets the position to 0 and the buffer to the empty
  list and leaves the owning iterator as it was. The next step therefore fetches from
  the iterator's current state and yields the first item of the page fetched.
\<close>

theorem restart_keeps_iterator:
  "v_position (IteratorItems_aiter v) = 0 \<and>
   v_items (IteratorItems_aiter v) = PList [] \<and>
   v_iterator (IteratorItems_aiter v) = v_iterator v \<and>
   (fst (nxt (v_iterator v, w)) = Inr page \<and> py_index page 0 = Inr x
    \<longrightarrow> IteratorItems_anext nxt (IteratorItems_aiter v, w) =
          (Inr x,
           (v\<lparr>v_iterator := fst (snd (nxt (v_iterator v, w))), v_position := 1, v_items := page\<rparr>,
            snd (snd (nxt (v_iterator v, w))))))"
proof (intro conjI impI)
  show "v_position (IteratorItems_aiter v) = 0"
    and "v_items (IteratorItems_aiter v) = PList []"
    and "v_iterator (IteratorItems_aiter v) = v_iterator v"
    by (simp_all add: IteratorItems_aiter_def)
next
  assume a: "fst (nxt (v_iterator v, w)) = Inr page \<and> py_index page 0 = Inr x"
  obtain r it' w' where step: "nxt (v_iterator v, w) = (r, (it', w'))"
    by (cases "nxt (v_iterator v, w)") auto
  with a have r: "r = Inr page" by simp
  from a step r show "IteratorItems_anext nxt (IteratorItems_aiter v, w) =
          (Inr x,
           (v\<lparr>v_iterator := fst (snd (nxt (v_iterator v, w))), v_position := 1, v_items := page\<rparr>,
            snd (snd (nxt (v_iterator v, w)))))"
    by (simp add: IteratorItems_anext_def IteratorItems_aiter_def read_item_def Let_def)
qed

theorem restart_keeps_iterator_witness:
  "v_items (fst mid_traversal) = PList [PInt 1, PInt 2, PInt 3] \<and>
   v_position (fst mid_traversal) = 1 \<and>
   next_cursor (v_iterator (fst mid_traversal)) = PStr ''abc'' \<and>
   fst (PageIterator_next scripted (v_iterator (fst mid_traversal), snd mid_traversal))
     = Inr (PList [PInt 4, PInt 5]) \<and>
   py_index (PList [PInt 4, PInt 5]) 0 = Inr (PInt 4) \<and>
   v_iterator (IteratorItems_aiter (fst mid_traversal)) = v_iterator (fst mid_traversal) \<and>
   fst (IteratorItems_anext (PageIterator_next scripted)
          (IteratorItems_aiter (fst mid_traversal), snd mid_traversal)) = Inr (PInt 4)"
proof -
  let ?v = "fst mid_traversal" and ?w = "snd mid_traversal"
  have state: "v_items ?v = PList [PInt 1, PInt 2, PInt 3] \<and> v_position ?v = 1 \<and>
               next_cursor (v_iterator ?v) = PStr ''abc''"
    by (simp add: mid_traversal_eq)
  have page: "fst (PageIterator_next scripted (v_iterator ?v, ?w)) = Inr (PList [PInt 4, PInt 5])"
    by (simp add: mid_traversal_eq PageIterator_next_def transport_get_def scripted_def
          last_page_def apply_handler_def fresh_cursor_iterator_def PageIterator_init_def Let_def)
  have item: "py_index (PList [PInt 4, PInt 5]) 0 = Inr (PInt 4)"
    by simp
  from page item
    restart_keeps_iterator [where v = ?v and w = ?w and nxt = "PageIterator_next scripted"
      and page = "PList [PInt 4, PInt 5]" and x = "PInt 4"]
  have "v_iterator (IteratorItems_aiter ?v) = v_iterator ?v \<and>
        fst (IteratorItems_anext (PageIterator_next scripted) (IteratorItems_aiter ?v, ?w)) = Inr (PInt 4)"
    by simp
  with state page item show ?thesis by simp
qed

end
